theory Spec2Isabelle
  imports Main "HOL-Library.AList"
begin

section \<open>Strings\<close>

text \<open>
  JavaScript strings are modelled as \<open>string\<close>, one \<open>char\<close> per code unit below 256.
  \<open>js_space\<close> holds the white space and line terminator code units of that range, the
  ones \<open>String.prototype.trim\<close> strips and the regular expression class \<open>\s\<close> matches:
  TAB, LF, VT, FF, CR, SP and NBSP.
\<close>

definition js_space :: "char \<Rightarrow> bool" where
  "js_space c = ((of_char c :: nat) \<in> {9, 10, 11, 12, 13, 32, 160})"

definition trim :: "string \<Rightarrow> string" where
  "trim s = rev (dropWhile js_space (rev (dropWhile js_space s)))"

text \<open>\<open>Array.prototype.join\<close> on an array of strings.\<close>

fun join :: "string \<Rightarrow> string list \<Rightarrow> string" where
  "join sep [] = []"
| "join sep [x] = x"
| "join sep (x # y # ys) = x @ sep @ join sep (y # ys)"

text \<open>\<open>s.split('/')\<close>: the pieces between the slashes, at least one piece.\<close>

fun split_slash :: "string \<Rightarrow> string list" where
  "split_slash [] = [[]]"
| "split_slash (c # cs) =
     (if c = CHR ''/'' then [] # split_slash cs
      else (case split_slash cs of
              [] \<Rightarrow> [[c]]
            | p # ps \<Rightarrow> (c # p) # ps))"

text \<open>
  An array element interpolated into a template literal: an index out of range reads
  \<open>undefined\<close>, which prints as the text \<open>undefined\<close>.
\<close>

definition nth_text :: "string list \<Rightarrow> nat \<Rightarrow> string" where
  "nth_text xs i = (if i < length xs then xs ! i else ''undefined'')"

text \<open>
  \<open>output.match(/https?:\/\/[^\s]+/)\<close>: the leftmost position where \<open>http://\<close> or
  \<open>https://\<close> is followed by at least one character that is not white space, and from
  there the longest run of such characters.
\<close>

definition url_at :: "string \<Rightarrow> string option" where
  "url_at s =
     (if take 8 s = ''https://'' \<and> takeWhile (\<lambda>c. \<not> js_space c) (drop 8 s) \<noteq> []
      then Some (''https://'' @ takeWhile (\<lambda>c. \<not> js_space c) (drop 8 s))
      else if take 7 s = ''http://'' \<and> takeWhile (\<lambda>c. \<not> js_space c) (drop 7 s) \<noteq> []
      then Some (''http://'' @ takeWhile (\<lambda>c. \<not> js_space c) (drop 7 s))
      else None)"

fun urlMatch :: "string \<Rightarrow> string option" where
  "urlMatch [] = None"
| "urlMatch (c # cs) =
     (case url_at (c # cs) of
        Some u \<Rightarrow> Some u
      | None \<Rightarrow> urlMatch cs)"

section \<open>Process Runner\<close>

text \<open>
  A child process is seen through the events its handlers receive: the \<open>data\<close> chunks of
  the two streams, in arrival order, and the first of \<open>close\<close> (with the exit code, null
  when a signal ended the process) and \<open>error\<close> (with the platform's message). The
  promise settles on that first event; a later one cannot change it. \<open>elapsed\<close> is the
  wall-clock time in milliseconds until then.
\<close>

datatype chunk = Stdout string | Stderr string

datatype proc_end = CloseEv "int option" | ErrorEv string

record proc_run =
  chunks :: "chunk list"
  ending :: proc_end
  elapsed :: nat

record CommandResult =
  success :: bool
  "output" :: string
  error :: string

text \<open>The accumulators \<open>output += data\<close> and \<open>error += data\<close> of the two stream handlers.\<close>

fun stdout_text :: "chunk list \<Rightarrow> string" where
  "stdout_text [] = []"
| "stdout_text (Stdout d # cs) = d @ stdout_text cs"
| "stdout_text (Stderr d # cs) = stdout_text cs"

fun stderr_text :: "chunk list \<Rightarrow> string" where
  "stderr_text [] = []"
| "stderr_text (Stdout d # cs) = stderr_text cs"
| "stderr_text (Stderr d # cs) = d @ stderr_text cs"

text \<open>The \<open>close\<close> and \<open>error\<close> handlers of \<open>executeCommand\<close>.\<close>

fun settle :: "chunk list \<Rightarrow> proc_end \<Rightarrow> CommandResult" where
  "settle cs (CloseEv code) =
     \<lparr>success = (code = Some 0),
      output = trim (stdout_text cs),
      error = trim (stderr_text cs)\<rparr>"
| "settle cs (ErrorEv msg) =
     \<lparr>success = False, output = [], error = msg\<rparr>"

section \<open>Results, the environment and the state\<close>

record PipelineStep =
  name :: string
  command :: string
  args :: "string list"
  workingDirectory :: string

record PipelineResult =
  step :: string
  step_success :: bool
  step_output :: string
  step_error :: string
  duration :: nat

text \<open>
  \<open>DeploymentResult\<close>: the early returns of the deployment flows build an object without
  \<open>timestamp\<close>, so the field is optional here, as \<open>url\<close> and \<open>deploymentId\<close> are.
\<close>

record DeploymentResult =
  dep_success :: bool
  url :: "string option"
  dep_log :: string
  deploymentId :: "string option"
  dep_timestamp :: "nat option"

record DeploymentHistory =
  entry_id :: string
  projectId :: string
  target :: string
  result :: DeploymentResult
  hist_timestamp :: nat

record SecuritySummary =
  total :: nat
  critical :: nat
  high :: nat
  medium :: nat
  low :: nat

record SecurityScanResult =
  summary :: SecuritySummary
  passed :: bool

text \<open>What the program has done to the outside, in order.\<close>

datatype action =
    Exec string "string list" string
  | Scan string
  | Inject string string

text \<open>
  The state the code reads and writes: the log of its actions, the clock (\<open>Date.now()\<close>,
  in milliseconds), the files and directories of the disk, the \<open>deploymentHistory\<close> array
  of the \<open>DeploymentManager\<close> with the document last written to \<open>historyPath\<close>, and the
  number of random ids drawn so far.
\<close>

record world =
  trace :: "action list"
  now :: nat
  disk :: "string \<rightharpoonup> string"
  folders :: "string set"
  deploymentHistory :: "DeploymentHistory list"
  historyFile :: "DeploymentHistory list option"
  drawn :: nat

text \<open>
  What the code does not decide. \<open>spawn\<close> is the run of a child process, which may depend
  on everything done before it; \<open>scanProject\<close> is the scan collaborator, \<open>Inl\<close> the
  message of the error it throws, with the time it takes; \<open>randomId\<close> is
  \<open>Math.random().toString(36).substr(2, 9)\<close>. The library functions are parameters:
  \<open>deployData\<close> is \<open>JSON.parse\<close> of the publish output followed by the reads of
  \<open>deploy_url\<close> and \<open>deploy_id\<close> (\<open>None\<close> when that throws), \<open>regexReplace\<close> is
  \<open>s.replace(new RegExp(p, 'g'), v)\<close> (\<open>None\<close> when the pattern is rejected),
  \<open>parseJson\<close> and \<open>printJson\<close> read and write a manifest document, \<open>pathJoin\<close> and
  \<open>pathDirname\<close> are those of the \<open>path\<close> module, \<open>ioError\<close> is the text of the error a failing
  file-system call on a path throws, \<open>cwd\<close> is \<open>process.cwd()\<close> and
  \<open>templatesPath\<close> the directory of the template catalog.
\<close>

datatype js_value = JUndefined | JNull | JBool bool | JNum int | JStr string

record PackageJson =
  pkg_dependencies :: "(string \<times> string) list option"
  pkg_rest :: string

record env =
  spawn :: "action list \<Rightarrow> string \<Rightarrow> string list \<Rightarrow> string \<Rightarrow> proc_run"
  scanProject :: "string \<Rightarrow> (string + SecurityScanResult) \<times> nat"
  randomId :: "nat \<Rightarrow> string"
  deployData :: "string \<Rightarrow> (string option \<times> string option) option"
  regexReplace :: "string \<Rightarrow> js_value \<Rightarrow> string \<Rightarrow> string option"
  parseJson :: "string \<Rightarrow> string + PackageJson"
  printJson :: "PackageJson \<Rightarrow> string"
  pathJoin :: "string list \<Rightarrow> string"
  pathDirname :: "string \<Rightarrow> string"
  ioError :: "string \<Rightarrow> string"
  cwd :: string
  templatesPath :: string

text \<open>
  \<open>executeCommand\<close> (the same body in \<open>WorkflowOrchestrator\<close> and in
  \<open>DeploymentManager\<close>, whose extra \<open>options\<close> only reach \<open>spawn\<close>): spawn, collect,
  settle on the first of \<open>close\<close> and \<open>error\<close>.
\<close>

definition executeCommand ::
  "env \<Rightarrow> string \<Rightarrow> string list \<Rightarrow> string \<Rightarrow> world \<Rightarrow> CommandResult \<times> world" where
  "executeCommand e cmd as dir w =
     (let run = spawn e (trace w) cmd as dir
      in (settle (chunks run) (ending run),
          w\<lparr>trace := trace w @ [Exec cmd as dir], now := now w + elapsed run\<rparr>))"

section \<open>Step Executor and fixed pipeline\<close>

definition executeStep ::
  "env \<Rightarrow> string \<Rightarrow> string \<Rightarrow> string list \<Rightarrow> string \<Rightarrow> world \<Rightarrow> PipelineResult \<times> world" where
  "executeStep e nm cmd as dir w =
     (let startTime = now w;
          (res, w') = executeCommand e cmd as dir w
      in (\<lparr>step = nm, step_success = success res, step_output = output res,
           step_error = error res, duration = now w' - startTime\<rparr>, w'))"

definition pipelineSteps :: "string \<Rightarrow> PipelineStep list" where
  "pipelineSteps projectPath =
     [\<lparr>name = ''Dependency Installation'', command = ''npm'', args = [''install''],
       workingDirectory = projectPath\<rparr>,
      \<lparr>name = ''Linting'', command = ''npm'', args = [''run'', ''lint''],
       workingDirectory = projectPath\<rparr>,
      \<lparr>name = ''Testing'', command = ''npm'', args = [''test''],
       workingDirectory = projectPath\<rparr>,
      \<lparr>name = ''Security Audit'', command = ''npm'', args = [''audit''],
       workingDirectory = projectPath\<rparr>,
      \<lparr>name = ''Build'', command = ''npm'', args = [''run'', ''build''],
       workingDirectory = projectPath\<rparr>]"

text \<open>The \<open>for\<close> loop of \<open>runFullPipeline\<close> with its \<open>break\<close>.\<close>

fun pipelineLoop ::
  "env \<Rightarrow> PipelineStep list \<Rightarrow> PipelineResult list \<Rightarrow> world \<Rightarrow> PipelineResult list \<times> world" where
  "pipelineLoop e [] results w = (results, w)"
| "pipelineLoop e (s # rest) results w =
     (let (res, w') = executeStep e (name s) (command s) (args s) (workingDirectory s) w;
          results' = results @ [res]
      in if \<not> step_success res \<and> name s \<noteq> ''Security Audit'' then (results', w')
         else pipelineLoop e rest results' w')"

definition runFullPipeline :: "env \<Rightarrow> string \<Rightarrow> world \<Rightarrow> PipelineResult list \<times> world" where
  "runFullPipeline e projectPath w = pipelineLoop e (pipelineSteps projectPath) [] w"

text \<open>
  The stand-alone orchestrator (the second \<open>runFullPipeline\<close> of the repository) calls
  \<open>executeCommand\<close> itself; its \<open>close\<close> handler adds the measured duration to the result
  and its \<open>error\<close> handler does not, so that \<open>result.duration || 0\<close> is 0 after a launch
  failure.
\<close>

definition executeCommandTimed ::
  "env \<Rightarrow> string \<Rightarrow> string list \<Rightarrow> string \<Rightarrow> world \<Rightarrow> (CommandResult \<times> nat option) \<times> world" where
  "executeCommandTimed e cmd as dir w =
     (let run = spawn e (trace w) cmd as dir
      in ((settle (chunks run) (ending run),
           (case ending run of CloseEv code \<Rightarrow> Some (elapsed run) | ErrorEv msg \<Rightarrow> None)),
          w\<lparr>trace := trace w @ [Exec cmd as dir], now := now w + elapsed run\<rparr>))"

fun pipelineLoopTimed ::
  "env \<Rightarrow> PipelineStep list \<Rightarrow> PipelineResult list \<Rightarrow> world \<Rightarrow> PipelineResult list \<times> world" where
  "pipelineLoopTimed e [] results w = (results, w)"
| "pipelineLoopTimed e (s # rest) results w =
     (let ((res, d), w') = executeCommandTimed e (command s) (args s) (workingDirectory s) w;
          results' = results @
            [\<lparr>step = name s, step_success = success res, step_output = output res,
              step_error = error res, duration = (case d of Some n \<Rightarrow> n | None \<Rightarrow> 0)\<rparr>]
      in if \<not> success res \<and> name s \<noteq> ''Security Audit'' then (results', w')
         else pipelineLoopTimed e rest results' w')"

definition runFullPipelineTimed :: "env \<Rightarrow> string \<Rightarrow> world \<Rightarrow> PipelineResult list \<times> world" where
  "runFullPipelineTimed e projectPath w = pipelineLoopTimed e (pipelineSteps projectPath) [] w"

definition checkPrerequisites :: "env \<Rightarrow> world \<Rightarrow> (bool \<times> bool \<times> bool) \<times> world" where
  "checkPrerequisites e w =
     (let (r0, w0) = executeCommand e ''node'' [''--version''] (cwd e) w;
          (r1, w1) = executeCommand e ''npm'' [''--version''] (cwd e) w0;
          (r2, w2) = executeCommand e ''git'' [''--version''] (cwd e) w1
      in ((success r0, success r1, success r2), w2))"

section \<open>Deployment Dispatcher and History Store\<close>

definition newline :: string where
  "newline = [char_of (10 :: nat)]"

text \<open>
  \<open>saveDeploymentHistory\<close>: \<open>unshift\<close>, then \<open>slice(0, 100)\<close> when longer than 100, then
  the whole array written to the history file. (The write is taken to succeed; its
  \<open>catch\<close> only prints.)
\<close>

definition saveDeploymentHistory ::
  "env \<Rightarrow> string \<Rightarrow> string \<Rightarrow> DeploymentResult \<Rightarrow> world \<Rightarrow> world" where
  "saveDeploymentHistory e pid tgt res w =
     (let historyItem = \<lparr>entry_id = randomId e (drawn w), projectId = pid, target = tgt,
                         result = res, hist_timestamp = now w\<rparr>;
          h = historyItem # deploymentHistory w;
          h' = (if length h > 100 then take 100 h else h)
      in w\<lparr>deploymentHistory := h', historyFile := Some h', drawn := Suc (drawn w)\<rparr>)"

text \<open>\<open>getDeploymentHistory(projectId?)\<close>: an absent or empty id is falsy and selects all.\<close>

definition getDeploymentHistory :: "string option \<Rightarrow> world \<Rightarrow> DeploymentHistory list" where
  "getDeploymentHistory pid w =
     (case pid of
        None \<Rightarrow> deploymentHistory w
      | Some p \<Rightarrow>
          if p \<noteq> [] then filter (\<lambda>item. projectId item = p) (deploymentHistory w)
          else deploymentHistory w)"

definition installNetlifyCLI :: "env \<Rightarrow> world \<Rightarrow> (bool \<times> string) \<times> world" where
  "installNetlifyCLI e w =
     (let (res, w') = executeCommand e ''npm'' [''install'', ''-g'', ''netlify-cli''] (cwd e) w
      in ((success res, error res), w'))"

definition installVercelCLI :: "env \<Rightarrow> world \<Rightarrow> (bool \<times> string) \<times> world" where
  "installVercelCLI e w =
     (let (res, w') = executeCommand e ''npm'' [''install'', ''-g'', ''vercel''] (cwd e) w
      in ((success res, error res), w'))"

text \<open>An optional string argument used as a condition: absent and empty are falsy.\<close>

definition given :: "string option \<Rightarrow> bool" where
  "given x = (case x of None \<Rightarrow> False | Some s \<Rightarrow> s \<noteq> [])"

text \<open>\<open>deployToNetlify\<close> from the \<open>init\<close> call on, with the log lines pushed so far.\<close>

definition netlifyPublish ::
  "env \<Rightarrow> string \<Rightarrow> string option \<Rightarrow> string list \<Rightarrow> world \<Rightarrow> DeploymentResult \<times> world" where
  "netlifyPublish e projectPath siteName lg w =
     (let (initCheck, w1) = executeCommand e ''netlify'' [''init'', ''--force''] projectPath w;
          lg1 = (if \<not> success initCheck
                 then lg @ [''Netlify init failed: '' @ error initCheck] else lg);
          deployArgs = [''deploy'', ''--prod'', ''--json''] @
                       (if given siteName then [''--site'', the siteName] else []);
          (deployResult, w2) = executeCommand e ''netlify'' deployArgs projectPath w1;
          lg2 = lg1 @ [output deployResult];
          (u, d) = (if success deployResult
                    then (case deployData e (output deployResult) of
                            Some (du, di) \<Rightarrow> (du, di)
                          | None \<Rightarrow> (urlMatch (output deployResult), None))
                    else (None, None));
          res = \<lparr>dep_success = success deployResult, url = u, dep_log = join newline lg2,
                 deploymentId = d, dep_timestamp = Some (now w2)\<rparr>
      in (res, saveDeploymentHistory e ''unknown-project'' ''netlify'' res w2))"

definition deployToNetlify ::
  "env \<Rightarrow> string \<Rightarrow> string option \<Rightarrow> world \<Rightarrow> DeploymentResult \<times> world" where
  "deployToNetlify e projectPath siteName w =
     (let lg = [''Starting Netlify deployment for: '' @ projectPath];
          (cliCheck, w1) = executeCommand e ''netlify'' [''--version''] projectPath w
      in if \<not> success cliCheck then
           (let lg1 = lg @ [''Netlify CLI not found. Attempting to install...''];
                ((ok, err), w2) = installNetlifyCLI e w1
            in if \<not> ok then
                 (\<lparr>dep_success = False, url = None,
                   dep_log = join newline lg1 @ newline @ ''Failed to install Netlify CLI: '' @ err,
                   deploymentId = None, dep_timestamp = None\<rparr>, w2)
               else netlifyPublish e projectPath siteName lg1 w2)
         else netlifyPublish e projectPath siteName lg w1)"

text \<open>\<open>deployToVercel\<close> from the publish call on.\<close>

definition vercelPublish ::
  "env \<Rightarrow> string \<Rightarrow> string option \<Rightarrow> string list \<Rightarrow> world \<Rightarrow> DeploymentResult \<times> world" where
  "vercelPublish e projectPath projectName lg w =
     (let deployArgs = [''--prod'', ''--confirm''] @
                       (if given projectName then [''--name'', the projectName] else []);
          (deployResult, w1) = executeCommand e ''vercel'' deployArgs projectPath w;
          lg1 = lg @ [output deployResult];
          res = \<lparr>dep_success = success deployResult, url = urlMatch (output deployResult),
                 dep_log = join newline lg1, deploymentId = None,
                 dep_timestamp = Some (now w1)\<rparr>
      in (res, saveDeploymentHistory e ''unknown-project'' ''vercel'' res w1))"

definition deployToVercel ::
  "env \<Rightarrow> string \<Rightarrow> string option \<Rightarrow> world \<Rightarrow> DeploymentResult \<times> world" where
  "deployToVercel e projectPath projectName w =
     (let lg = [''Starting Vercel deployment for: '' @ projectPath];
          (cliCheck, w1) = executeCommand e ''vercel'' [''--version''] projectPath w
      in if \<not> success cliCheck then
           (let lg1 = lg @ [''Vercel CLI not found. Attempting to install...''];
                ((ok, err), w2) = installVercelCLI e w1
            in if \<not> ok then
                 (\<lparr>dep_success = False, url = None,
                   dep_log = join newline lg1 @ newline @ ''Failed to install Vercel CLI: '' @ err,
                   deploymentId = None, dep_timestamp = None\<rparr>, w2)
               else vercelPublish e projectPath projectName lg1 w2)
         else vercelPublish e projectPath projectName lg w1)"

definition deployToGitHubPages ::
  "env \<Rightarrow> string \<Rightarrow> string \<Rightarrow> world \<Rightarrow> DeploymentResult \<times> world" where
  "deployToGitHubPages e projectPath repoUrl w =
     (let lg = [''Starting GitHub Pages deployment for: '' @ projectPath];
          (buildResult, w1) = executeCommand e ''npm'' [''run'', ''build''] projectPath w
      in if \<not> success buildResult then
           (\<lparr>dep_success = False, url = None,
             dep_log = join newline lg @ newline @ ''Build failed: '' @ error buildResult,
             deploymentId = None, dep_timestamp = None\<rparr>, w1)
         else
           (let lg1 = lg @ [''Build completed successfully''];
                res = \<lparr>dep_success = True,
                       url = Some (''https://'' @ nth_text (split_slash repoUrl) 3 @
                                   ''.github.io/'' @ nth_text (split_slash repoUrl) 4),
                       dep_log = join newline lg1, deploymentId = None,
                       dep_timestamp = Some (now w1)\<rparr>
            in (res, saveDeploymentHistory e ''unknown-project'' ''github-pages'' res w1)))"

text \<open>
  The \<open>catch\<close> blocks of the three flows, which record a failed result in the history
  and return it, have no branch here: \<open>executeCommand\<close> settles on every run, the parse
  failure is caught inside, \<open>saveDeploymentHistory\<close> catches its own write failure, and
  the arguments are strings.
\<close>

datatype deploy_target = Netlify | Vercel | GitHubPages | NoTarget

fun target_text :: "deploy_target \<Rightarrow> string" where
  "target_text Netlify = ''netlify''"
| "target_text Vercel = ''vercel''"
| "target_text GitHubPages = ''github-pages''"
| "target_text NoTarget = ''none''"

text \<open>
  The dispatch of the \<open>deploy-project\<close> handler on a supported target: the target with
  the argument its flow takes (a site or project name, a repository URL).
\<close>

datatype flow = NetlifyFlow "string option" | VercelFlow "string option" | PagesFlow string

fun deploy :: "env \<Rightarrow> flow \<Rightarrow> string \<Rightarrow> world \<Rightarrow> DeploymentResult \<times> world" where
  "deploy e (NetlifyFlow siteName) projectPath w = deployToNetlify e projectPath siteName w"
| "deploy e (VercelFlow projectName) projectPath w = deployToVercel e projectPath projectName w"
| "deploy e (PagesFlow repoUrl) projectPath w = deployToGitHubPages e projectPath repoUrl w"

section \<open>Template Injection Engine\<close>

datatype template_type = Component | Feature | Integration | Boilerplate

datatype template_category = Ui | Auth | Api | Database | Deployment

datatype file_type = File | Directory

datatype var_type = VString | VNumber | VBoolean | VSelect

record TemplateFile =
  source :: string
  file_target :: string
  file_type :: file_type
  file_variables :: "string list"

record TemplateVariable =
  var_name :: string
  var_description :: string
  var_type :: var_type
  required :: bool
  defaultValue :: "js_value option"
  options :: "string list option"

record Template =
  template_id :: string
  template_name :: string
  description :: string
  template_type :: template_type
  category :: template_category
  files :: "TemplateFile list"
  variables :: "TemplateVariable list"
  dependencies :: "string list"
  installScripts :: "string list option"
  tags :: "string list"

record InjectionResult =
  inj_success :: bool
  injectedFiles :: "string list"
  installedDependencies :: "string list"
  errors :: "string list"

text \<open>
  A \<open>Record<string, any>\<close> is the list of its own entries, in insertion order, with the
  values a form supplies (numbers are integers here). Reading a key that is not there
  gives \<open>undefined\<close>; the members an object inherits are not modelled.
\<close>

type_synonym js_record = "(string \<times> js_value) list"

definition lookup :: "js_record \<Rightarrow> string \<Rightarrow> js_value" where
  "lookup vars k = (case map_of vars k of None \<Rightarrow> JUndefined | Some v \<Rightarrow> v)"

fun truthy :: "js_value \<Rightarrow> bool" where
  "truthy JUndefined = False"
| "truthy JNull = False"
| "truthy (JBool b) = b"
| "truthy (JNum n) = (n \<noteq> 0)"
| "truthy (JStr s) = (s \<noteq> [])"

text \<open>\<open>options.includes(value)\<close> on an array of strings: only an equal string is found.\<close>

fun array_includes :: "string list \<Rightarrow> js_value \<Rightarrow> bool" where
  "array_includes opts (JStr s) = (s \<in> set opts)"
| "array_includes opts v = False"

definition missingMessage :: "string \<Rightarrow> string" where
  "missingMessage n = ''Required variable missing: '' @ n"

definition invalidMessage :: "string \<Rightarrow> string list \<Rightarrow> string" where
  "invalidMessage n opts =
     ''Invalid value for '' @ n @ ''. Must be one of: '' @ join '', '' opts"

text \<open>The loop of \<open>validateVariables\<close> over \<open>template.variables\<close>, pushing to \<open>errors\<close>.\<close>

fun validateLoop :: "js_record \<Rightarrow> TemplateVariable list \<Rightarrow> string list \<Rightarrow> string list" where
  "validateLoop vars [] errs = errs"
| "validateLoop vars (v # vs) errs =
     (let errs1 = (if required v \<and> \<not> truthy (lookup vars (var_name v))
                   then errs @ [missingMessage (var_name v)] else errs);
          errs2 = (if truthy (lookup vars (var_name v)) \<and> var_type v = VSelect \<and> options v \<noteq> None
                   then (if \<not> array_includes (the (options v)) (lookup vars (var_name v))
                         then errs1 @ [invalidMessage (var_name v) (the (options v))]
                         else errs1)
                   else errs1)
      in validateLoop vars vs errs2)"

definition validateVariables :: "Template \<Rightarrow> js_record \<Rightarrow> bool \<times> string list" where
  "validateVariables t vars =
     (let errs = validateLoop vars (variables t) [] in (errs = [], errs))"

text \<open>\<open>replaceVariables\<close> and \<open>resolvePath\<close>: one global replace per entry of the record.\<close>

fun replaceVariables :: "env \<Rightarrow> string \<Rightarrow> js_record \<Rightarrow> string option" where
  "replaceVariables e content [] = Some content"
| "replaceVariables e content ((k, v) # rest) =
     (case regexReplace e (''{{'' @ k @ ''}}'') v content of
        None \<Rightarrow> None
      | Some r \<Rightarrow> replaceVariables e r rest)"

fun resolvePath :: "env \<Rightarrow> string \<Rightarrow> js_record \<Rightarrow> string option" where
  "resolvePath e pathStr [] = Some pathStr"
| "resolvePath e pathStr ((k, v) # rest) =
     (case regexReplace e (''{{'' @ k @ ''}}'') v pathStr of
        None \<Rightarrow> None
      | Some r \<Rightarrow> resolvePath e r rest)"

text \<open>
  The file-system calls. \<open>None\<close> is a thrown error: making a directory where a file is,
  reading what is not a file, writing where a directory is.
\<close>

definition pathExists :: "string \<Rightarrow> world \<Rightarrow> bool" where
  "pathExists p w = (disk w p \<noteq> None \<or> p \<in> folders w)"

definition ensureDir :: "string \<Rightarrow> world \<Rightarrow> world option" where
  "ensureDir p w = (if disk w p \<noteq> None then None else Some (w\<lparr>folders := insert p (folders w)\<rparr>))"

definition readFile :: "string \<Rightarrow> world \<Rightarrow> string option" where
  "readFile p w = disk w p"

definition writeFile :: "string \<Rightarrow> string \<Rightarrow> world \<Rightarrow> world option" where
  "writeFile p content w =
     (if p \<in> folders w then None else Some (w\<lparr>disk := (disk w)(p \<mapsto> content)\<rparr>))"

definition readJson :: "env \<Rightarrow> string \<Rightarrow> world \<Rightarrow> string + PackageJson" where
  "readJson e p w = (case readFile p w of None \<Rightarrow> Inl (ioError e p) | Some txt \<Rightarrow> parseJson e txt)"

definition writeJson :: "env \<Rightarrow> string \<Rightarrow> PackageJson \<Rightarrow> world \<Rightarrow> world option" where
  "writeJson e p doc w = writeFile p (printJson e doc) w"

text \<open>\<open>injectFile\<close>: \<open>Some\<close> path is \<open>{success: true, path}\<close>, \<open>None\<close> is \<open>{success: false}\<close>.\<close>

definition injectFile ::
  "env \<Rightarrow> string \<Rightarrow> TemplateFile \<Rightarrow> string \<Rightarrow> js_record \<Rightarrow> world \<Rightarrow> string option \<times> world" where
  "injectFile e templateId file targetPath vars w =
     (let sourcePath = pathJoin e [templatesPath e, templateId, source file]
      in case resolvePath e (pathJoin e [targetPath, file_target file]) vars of
           None \<Rightarrow> (None, w)
         | Some finalTargetPath \<Rightarrow>
             if file_type file = Directory then
               (case ensureDir finalTargetPath w of
                  None \<Rightarrow> (None, w)
                | Some w1 \<Rightarrow> (Some finalTargetPath, w1))
             else if pathExists sourcePath w then
               (case readFile sourcePath w of
                  None \<Rightarrow> (None, w)
                | Some content \<Rightarrow>
                    (case replaceVariables e content vars of
                       None \<Rightarrow> (None, w)
                     | Some content1 \<Rightarrow>
                         (case ensureDir (pathDirname e finalTargetPath) w of
                            None \<Rightarrow> (None, w)
                          | Some w1 \<Rightarrow>
                              (case writeFile finalTargetPath content1 w1 of
                                 None \<Rightarrow> (None, w1)
                               | Some w2 \<Rightarrow> (Some finalTargetPath, w2)))))
             else (None, w))"

text \<open>The loop of \<open>injectTemplate\<close> over \<open>template.files\<close>: injected paths and errors so far.\<close>

fun injectFiles ::
  "env \<Rightarrow> string \<Rightarrow> TemplateFile list \<Rightarrow> string \<Rightarrow> js_record \<Rightarrow> string list \<Rightarrow> string list \<Rightarrow> world
     \<Rightarrow> (string list \<times> string list) \<times> world" where
  "injectFiles e templateId [] targetPath vars injected errs w = ((injected, errs), w)"
| "injectFiles e templateId (f # fs) targetPath vars injected errs w =
     (case injectFile e templateId f targetPath vars w of
        (Some p, w1) \<Rightarrow> injectFiles e templateId fs targetPath vars (injected @ [p]) errs w1
      | (None, w1) \<Rightarrow>
          injectFiles e templateId fs targetPath vars injected
            (errs @ [''Failed to inject file: '' @ source f]) w1)"

text \<open>
  The loop of \<open>installDependencies\<close>: \<open>if (!packageJson.dependencies[dep])\<close> holds for a
  name that is not there and for one whose value is the empty string.
\<close>

definition falsyVersion :: "string option \<Rightarrow> bool" where
  "falsyVersion v = (case v of None \<Rightarrow> True | Some s \<Rightarrow> s = [])"

fun mergeLoop ::
  "(string \<times> string) list \<Rightarrow> string list \<Rightarrow> string list \<Rightarrow> (string \<times> string) list \<times> string list" where
  "mergeLoop deps [] installed = (deps, installed)"
| "mergeLoop deps (d # ds) installed =
     (if falsyVersion (map_of deps d)
      then mergeLoop (AList.update d ''latest'' deps) ds (installed @ [d])
      else mergeLoop deps ds installed)"

definition installDependencies ::
  "env \<Rightarrow> string \<Rightarrow> string list \<Rightarrow> world \<Rightarrow> (string list \<times> string list) \<times> world" where
  "installDependencies e targetPath deps w =
     (let packageJsonPath = pathJoin e [targetPath, ''package.json'']
      in if pathExists packageJsonPath w then
           (case readJson e packageJsonPath w of
              Inl err \<Rightarrow> (([], [''Failed to install dependencies: '' @ err]), w)
            | Inr packageJson \<Rightarrow>
                (let deps0 = (case pkg_dependencies packageJson of None \<Rightarrow> [] | Some ds \<Rightarrow> ds);
                     (deps1, installed) = mergeLoop deps0 deps []
                 in case writeJson e packageJsonPath
                           (packageJson\<lparr>pkg_dependencies := Some deps1\<rparr>) w of
                      None \<Rightarrow>
                        ((installed,
                          [''Failed to install dependencies: '' @ ioError e packageJsonPath]), w)
                    | Some w1 \<Rightarrow> ((installed, []), w1)))
         else (([], []), w))"

text \<open>\<open>runInstallScript\<close> resolves the placeholders and prints the script; nothing runs.\<close>

definition runInstallScript :: "env \<Rightarrow> string \<Rightarrow> string \<Rightarrow> js_record \<Rightarrow> world \<Rightarrow> world" where
  "runInstallScript e targetPath script vars w = w"

text \<open>
  \<open>injectTemplate\<close> of the \<open>TemplateManager\<close>, over its catalog \<open>templates\<close>. Its outer
  \<open>catch\<close> has no branch here: every call inside catches its own errors.
\<close>

definition injectTemplate ::
  "env \<Rightarrow> (string \<rightharpoonup> Template) \<Rightarrow> string \<Rightarrow> string \<Rightarrow> js_record \<Rightarrow> world
     \<Rightarrow> InjectionResult \<times> world" where
  "injectTemplate e templates templateId targetPath vars w0 =
     (let w = w0\<lparr>trace := trace w0 @ [Inject templateId targetPath]\<rparr>
      in case templates templateId of
           None \<Rightarrow>
             (\<lparr>inj_success = False, injectedFiles = [], installedDependencies = [],
               errors = [''Template not found: '' @ templateId]\<rparr>, w)
         | Some t \<Rightarrow>
             (let (valid, verrs) = validateVariables t vars
              in if \<not> valid then
                   (\<lparr>inj_success = False, injectedFiles = [], installedDependencies = [],
                     errors = verrs\<rparr>, w)
                 else
                   (let ((injected, errs1), w1) =
                          injectFiles e templateId (files t) targetPath vars [] [] w;
                        ((installed, errs2), w2) =
                          (if dependencies t \<noteq> []
                           then installDependencies e targetPath (dependencies t) w1
                           else (([], []), w1));
                        w3 = (case installScripts t of
                                None \<Rightarrow> w2
                              | Some scripts \<Rightarrow>
                                  fold (\<lambda>script. runInstallScript e targetPath script vars) scripts w2)
                    in (\<lparr>inj_success = (errs1 @ errs2 = []), injectedFiles = injected,
                         installedDependencies = installed, errors = errs1 @ errs2\<rparr>, w3))))"

section \<open>Pipeline Sequencer: the configurable workflow\<close>

record StepFlags =
  install :: bool
  lint :: bool
  test :: bool
  security :: bool
  build :: bool
  deploy_flag :: bool

record DeploymentConfig =
  deploy_target :: deploy_target
  autoDeploy :: bool
  siteName :: "string option"

record Features =
  injectTemplates :: "string list"
  runScripts :: "string list"

record WorkflowConfig =
  stepFlags :: StepFlags
  deployment_cfg :: DeploymentConfig
  features :: Features

record WorkflowResult =
  wf_success :: bool
  steps :: "PipelineResult list"
  deployment :: "DeploymentResult option"
  wf_duration :: nat
  timestamp :: nat

text \<open>A number in a template literal: its decimal digits.\<close>

fun show_nat :: "nat \<Rightarrow> string" where
  "show_nat n =
     (if n < 10 then [char_of (48 + n)]
      else show_nat (n div 10) @ [char_of (48 + n mod 10)])"

text \<open>
  \<open>injectTemplate\<close> of the orchestrator: the template manager is called with \<open>{}\<close>.
  (Its \<open>catch\<close> has no branch here: the template manager returns a result on every path.)
\<close>

definition injectTemplateStep ::
  "env \<Rightarrow> (string \<rightharpoonup> Template) \<Rightarrow> string \<Rightarrow> string \<Rightarrow> world \<Rightarrow> PipelineResult \<times> world" where
  "injectTemplateStep e templates projectPath templateId w =
     (let startTime = now w;
          (res, w') = injectTemplate e templates templateId projectPath [] w
      in (\<lparr>step = ''Template Injection: '' @ templateId,
           step_success = inj_success res,
           step_output = ''Injected files: '' @ join '', '' (injectedFiles res),
           step_error = join '', '' (errors res),
           duration = now w' - startTime\<rparr>, w'))"

definition runSecurityScan :: "env \<Rightarrow> string \<Rightarrow> world \<Rightarrow> PipelineResult \<times> world" where
  "runSecurityScan e projectPath w =
     (let startTime = now w;
          (res, dt) = scanProject e projectPath;
          w' = w\<lparr>trace := trace w @ [Scan projectPath], now := now w + dt\<rparr>
      in case res of
           Inr scanResult \<Rightarrow>
             (\<lparr>step = ''Security Scan'',
               step_success = passed scanResult,
               step_output = ''Vulnerabilities found: '' @ show_nat (total (summary scanResult)) @
                             '' (Critical: '' @ show_nat (critical (summary scanResult)) @
                             '', High: '' @ show_nat (high (summary scanResult)) @ '')'',
               step_error = (if passed scanResult then [] else ''Security vulnerabilities detected''),
               duration = now w' - startTime\<rparr>, w')
         | Inl msg \<Rightarrow>
             (\<lparr>step = ''Security Scan'', step_success = False, step_output = [],
               step_error = msg, duration = now w' - startTime\<rparr>, w'))"

text \<open>\<open>deployProject\<close>: \<open>Inl\<close> is the message of the error thrown for an unsupported target.\<close>

definition deployProject ::
  "env \<Rightarrow> string \<Rightarrow> DeploymentConfig \<Rightarrow> world \<Rightarrow> (string + DeploymentResult) \<times> world" where
  "deployProject e projectPath dc w =
     (case deploy_target dc of
        Netlify \<Rightarrow> (let (r, w') = deployToNetlify e projectPath (siteName dc) w in (Inr r, w'))
      | Vercel \<Rightarrow> (let (r, w') = deployToVercel e projectPath (siteName dc) w in (Inr r, w'))
      | GitHubPages \<Rightarrow> (let (r, w') = deployToGitHubPages e projectPath [] w in (Inr r, w'))
      | NoTarget \<Rightarrow>
          (Inl (''Unsupported deployment target: '' @ target_text NoTarget), w))"

text \<open>
  The \<open>try\<close> block of \<open>runCompleteWorkflow\<close> is a sequence of stages over the \<open>results\<close>
  object and the state. A stage returns the message of the error it throws, if any;
  what it pushed before throwing stays in \<open>results\<close>.
\<close>

record run_state =
  rs_steps :: "PipelineResult list"
  rs_deployment :: "DeploymentResult option"
  rs_world :: world

type_synonym stage = "run_state \<Rightarrow> string option \<times> run_state"

definition and_then :: "string option \<times> run_state \<Rightarrow> stage \<Rightarrow> string option \<times> run_state" where
  "and_then r f = (case r of (Some msg, st) \<Rightarrow> (Some msg, st) | (None, st) \<Rightarrow> f st)"

definition push :: "PipelineResult \<Rightarrow> world \<Rightarrow> run_state \<Rightarrow> run_state" where
  "push r w st = st\<lparr>rs_steps := rs_steps st @ [r], rs_world := w\<rparr>"

definition prerequisiteStage :: "env \<Rightarrow> stage" where
  "prerequisiteStage e st =
     (let ((nodejs, npm, git), w') = checkPrerequisites e (rs_world st)
      in (if \<not> nodejs \<or> \<not> npm then Some ''Node.js and npm are required'' else None,
          st\<lparr>rs_world := w'\<rparr>))"

definition installStage :: "env \<Rightarrow> string \<Rightarrow> WorkflowConfig \<Rightarrow> stage" where
  "installStage e projectPath cfg st =
     (if install (stepFlags cfg) then
        (let (installResult, w') =
               executeStep e ''Dependency Installation'' ''npm'' [''install''] projectPath (rs_world st)
         in (if \<not> step_success installResult then Some ''Dependency installation failed'' else None,
             push installResult w' st))
      else (None, st))"

fun injectLoop :: "env \<Rightarrow> (string \<rightharpoonup> Template) \<Rightarrow> string \<Rightarrow> string list \<Rightarrow> run_state \<Rightarrow> run_state" where
  "injectLoop e templates projectPath [] st = st"
| "injectLoop e templates projectPath (templateId # rest) st =
     (let (injectionResult, w') = injectTemplateStep e templates projectPath templateId (rs_world st)
      in injectLoop e templates projectPath rest (push injectionResult w' st))"

definition templateStage :: "env \<Rightarrow> (string \<rightharpoonup> Template) \<Rightarrow> string \<Rightarrow> WorkflowConfig \<Rightarrow> stage" where
  "templateStage e templates projectPath cfg st =
     (if length (injectTemplates (features cfg)) > 0
      then (None, injectLoop e templates projectPath (injectTemplates (features cfg)) st)
      else (None, st))"

definition lintStage :: "env \<Rightarrow> string \<Rightarrow> WorkflowConfig \<Rightarrow> stage" where
  "lintStage e projectPath cfg st =
     (if lint (stepFlags cfg) then
        (let (lintResult, w') =
               executeStep e ''Linting'' ''npm'' [''run'', ''lint''] projectPath (rs_world st)
         in (None, push lintResult w' st))
      else (None, st))"

definition testStage :: "env \<Rightarrow> string \<Rightarrow> WorkflowConfig \<Rightarrow> stage" where
  "testStage e projectPath cfg st =
     (if test (stepFlags cfg) then
        (let (testResult, w') =
               executeStep e ''Testing'' ''npm'' [''test''] projectPath (rs_world st)
         in (if \<not> step_success testResult then Some ''Tests failed'' else None,
             push testResult w' st))
      else (None, st))"

definition securityStage :: "env \<Rightarrow> string \<Rightarrow> WorkflowConfig \<Rightarrow> stage" where
  "securityStage e projectPath cfg st =
     (if security (stepFlags cfg) then
        (let (securityResult, w') = runSecurityScan e projectPath (rs_world st)
         in (None, push securityResult w' st))
      else (None, st))"

definition buildStage :: "env \<Rightarrow> string \<Rightarrow> WorkflowConfig \<Rightarrow> stage" where
  "buildStage e projectPath cfg st =
     (if build (stepFlags cfg) then
        (let (buildResult, w') =
               executeStep e ''Build'' ''npm'' [''run'', ''build''] projectPath (rs_world st)
         in (if \<not> step_success buildResult then Some ''Build failed'' else None,
             push buildResult w' st))
      else (None, st))"

definition deployStage :: "env \<Rightarrow> string \<Rightarrow> WorkflowConfig \<Rightarrow> stage" where
  "deployStage e projectPath cfg st =
     (if deploy_flag (stepFlags cfg) \<and> autoDeploy (deployment_cfg cfg) then
        (case deployProject e projectPath (deployment_cfg cfg) (rs_world st) of
           (Inl msg, w') \<Rightarrow> (Some msg, st\<lparr>rs_world := w'\<rparr>)
         | (Inr deployResult, w') \<Rightarrow>
             (if \<not> dep_success deployResult then Some ''Deployment failed'' else None,
              st\<lparr>rs_deployment := Some deployResult, rs_world := w'\<rparr>))
      else (None, st))"

definition workflowBody ::
  "env \<Rightarrow> (string \<rightharpoonup> Template) \<Rightarrow> string \<Rightarrow> WorkflowConfig \<Rightarrow> stage" where
  "workflowBody e templates projectPath cfg st =
     and_then (and_then (and_then (and_then (and_then (and_then (and_then
       (prerequisiteStage e st)
       (installStage e projectPath cfg))
       (templateStage e templates projectPath cfg))
       (lintStage e projectPath cfg))
       (testStage e projectPath cfg))
       (securityStage e projectPath cfg))
       (buildStage e projectPath cfg))
       (deployStage e projectPath cfg)"

text \<open>
  \<open>runCompleteWorkflow\<close>: the \<open>try\<close> block, then either \<open>success = true\<close> or the
  \<open>catch\<close> that pushes the synthetic step, then the duration.
\<close>

definition runCompleteWorkflow ::
  "env \<Rightarrow> (string \<rightharpoonup> Template) \<Rightarrow> string \<Rightarrow> WorkflowConfig \<Rightarrow> world \<Rightarrow> WorkflowResult \<times> world" where
  "runCompleteWorkflow e templates projectPath cfg w =
     (let startTime = now w;
          (thrown, st) = workflowBody e templates projectPath cfg
                           \<lparr>rs_steps = [], rs_deployment = None, rs_world = w\<rparr>;
          w' = rs_world st
      in case thrown of
           None \<Rightarrow>
             (\<lparr>wf_success = True, steps = rs_steps st, deployment = rs_deployment st,
               wf_duration = now w' - startTime, timestamp = startTime\<rparr>, w')
         | Some msg \<Rightarrow>
             (\<lparr>wf_success = False,
               steps = rs_steps st @
                 [\<lparr>step = ''Workflow Execution'', step_success = False, step_output = [],
                   step_error = msg, duration = now w' - startTime\<rparr>],
               deployment = rs_deployment st,
               wf_duration = now w' - startTime, timestamp = startTime\<rparr>, w'))"

section \<open>Recording sequences and concrete environments\<close>

text \<open>A sequence of record operations: each attempt is saved in turn.\<close>

definition recordAll ::
  "env \<Rightarrow> (string \<times> string \<times> DeploymentResult) list \<Rightarrow> world \<Rightarrow> world" where
  "recordAll e attempts w =
     fold (\<lambda>(pid, tgt, res). saveDeploymentHistory e pid tgt res) attempts w"

text \<open>The entry that the \<open>k\<close>-th record operation after state \<open>w\<close> builds.\<close>

definition entryOf :: "env \<Rightarrow> world \<Rightarrow> nat \<Rightarrow> string \<times> string \<times> DeploymentResult \<Rightarrow> DeploymentHistory" where
  "entryOf e w k a =
     \<lparr>entry_id = randomId e (drawn w + k), projectId = fst a, target = fst (snd a),
      result = snd (snd a), hist_timestamp = now w\<rparr>"

text \<open>The entries that a sequence of attempts builds, numbered from \<open>n\<close>, oldest first.\<close>

definition entriesFrom ::
  "env \<Rightarrow> world \<Rightarrow> nat \<Rightarrow> (string \<times> string \<times> DeploymentResult) list \<Rightarrow> DeploymentHistory list" where
  "entriesFrom e w n attempts =
     map (\<lambda>k. entryOf e w (n + k) (attempts ! k)) [0..<length attempts]"

text \<open>The process a pipeline step spawns, and a step result without its duration.\<close>

definition exec_of :: "PipelineStep \<Rightarrow> action" where
  "exec_of s = Exec (command s) (args s) (workingDirectory s)"

definition untimed :: "PipelineResult \<Rightarrow> PipelineResult" where
  "untimed r = r\<lparr>duration := 0\<rparr>"

text \<open>
  An environment in which every command exits with code 0 and prints nothing, the scan
  passes, and a fresh machine: nothing on disk, nothing recorded.
\<close>

definition idle_run :: proc_run where
  "idle_run = \<lparr>chunks = [], ending = CloseEv (Some 0), elapsed = 1\<rparr>"

definition failed_run :: "string \<Rightarrow> proc_run" where
  "failed_run msg = \<lparr>chunks = [Stderr (msg @ newline)], ending = CloseEv (Some 1), elapsed = 1\<rparr>"

definition base_env :: env where
  "base_env =
     \<lparr>spawn = (\<lambda>tr cmd as dir. idle_run),
      scanProject = (\<lambda>p. (Inr \<lparr>summary = \<lparr>total = 0, critical = 0, high = 0, medium = 0, low = 0\<rparr>,
                                passed = True\<rparr>, 1)),
      randomId = show_nat,
      deployData = (\<lambda>s. None),
      regexReplace = (\<lambda>p v s. Some s),
      parseJson = (\<lambda>s. Inl ''Unexpected end of JSON input''),
      printJson = (\<lambda>d. []),
      pathJoin = join ''/'',
      pathDirname = (\<lambda>p. rev (tl (dropWhile (\<lambda>c. c \<noteq> CHR ''/'') (rev p)))),
      ioError = (\<lambda>p. ''EISDIR: illegal operation on a directory''),
      cwd = ''/app'',
      templatesPath = ''/app/templates''\<rparr>"

definition fresh_world :: world where
  "fresh_world =
     \<lparr>trace = [], now = 0, disk = Map.empty, folders = {}, deploymentHistory = [],
      historyFile = None, drawn = 0\<rparr>"

definition attempt :: "nat \<Rightarrow> string \<times> string \<times> DeploymentResult" where
  "attempt i =
     (''unknown-project'', ''netlify'',
      \<lparr>dep_success = False, url = None, dep_log = show_nat i, deploymentId = None,
       dep_timestamp = Some i\<rparr>)"

text \<open>Environments in which one command fails: it exits with code 1 or cannot be launched.\<close>

definition failing_env :: "string \<Rightarrow> string list \<Rightarrow> env" where
  "failing_env cmd as =
     base_env\<lparr>spawn := (\<lambda>tr c a dir. if c = cmd \<and> a = as then failed_run ''failed'' else idle_run)\<rparr>"

definition unlaunchable_env :: "string \<Rightarrow> env" where
  "unlaunchable_env cmd =
     base_env\<lparr>spawn := (\<lambda>tr c a dir.
        if c = cmd then \<lparr>chunks = [], ending = ErrorEv ''spawn ENOENT'', elapsed = 0\<rparr>
        else idle_run)\<rparr>"

text \<open>
  An environment without the Netlify CLI in which its global install fails too: every
  \<open>netlify\<close> command and \<open>npm install -g netlify-cli\<close> exit with code 1.
\<close>

definition no_netlify_env :: env where
  "no_netlify_env =
     base_env\<lparr>spawn := (\<lambda>tr c a dir.
        if c = ''netlify'' then failed_run ''netlify: command not found''
        else if c = ''npm'' \<and> a = [''install'', ''-g'', ''netlify-cli'']
        then failed_run ''npm ERR! code EACCES''
        else idle_run)\<rparr>"



text \<open>
  A catalog of two templates: a component with a required name, an optional select and
  one file, and a bundle of dependencies without variables or files.
\<close>

definition button_template :: Template where
  "button_template =
     \<lparr>template_id = ''button'', template_name = ''Button'', description = ''A button'',
      template_type = Component, category = Ui,
      files = [\<lparr>source = ''Button.tsx'', file_target = ''src/Button.tsx'', file_type = File,
                file_variables = [''name'']\<rparr>],
      variables =
        [\<lparr>var_name = ''name'', var_description = ''Component name'', var_type = VString,
          required = True, defaultValue = None, options = None\<rparr>,
         \<lparr>var_name = ''variant'', var_description = ''Style'', var_type = VSelect,
          required = False, defaultValue = None, options = Some [''primary'', ''ghost'']\<rparr>],
      dependencies = [''lodash''], installScripts = None, tags = []\<rparr>"

definition bundle_template :: Template where
  "bundle_template =
     \<lparr>template_id = ''bundle'', template_name = ''Bundle'', description = ''Dependencies'',
      template_type = Boilerplate, category = Api,
      files = [], variables = [],
      dependencies = [''left-pad'', ''react'', ''lodash''], installScripts = None, tags = []\<rparr>"

definition catalog :: "string \<rightharpoonup> Template" where
  "catalog = [''button'' \<mapsto> button_template, ''bundle'' \<mapsto> bundle_template]"

text \<open>The messages one iteration of the validation loop pushes for a declaration.\<close>

definition variableErrors :: "js_record \<Rightarrow> TemplateVariable \<Rightarrow> string list" where
  "variableErrors vars v =
     (if required v \<and> \<not> truthy (lookup vars (var_name v))
      then [missingMessage (var_name v)] else []) @
     (if truthy (lookup vars (var_name v)) \<and> var_type v = VSelect \<and> options v \<noteq> None \<and>
         \<not> array_includes (the (options v)) (lookup vars (var_name v))
      then [invalidMessage (var_name v) (the (options v))] else [])"


text \<open>
  The configurable workflow in words. \<open>plannedSteps\<close> is the list of step names a
  configuration asks for, in the order of the stages; \<open>enabledStages\<close> counts the stage
  flags that are set; \<open>blockingMessage\<close> gives, for the three steps whose failure throws,
  the message thrown; \<open>stepArgs\<close> gives the arguments of the \<open>npm\<close> command of a step;
  \<open>scanPassed\<close> is the verdict of the scan collaborator, an error counting as a failure.
\<close>

definition plannedSteps :: "WorkflowConfig \<Rightarrow> string list" where
  "plannedSteps cfg =
     (if install (stepFlags cfg) then [''Dependency Installation''] else []) @
     map (\<lambda>templateId. ''Template Injection: '' @ templateId) (injectTemplates (features cfg)) @
     (if lint (stepFlags cfg) then [''Linting''] else []) @
     (if test (stepFlags cfg) then [''Testing''] else []) @
     (if security (stepFlags cfg) then [''Security Scan''] else []) @
     (if build (stepFlags cfg) then [''Build''] else [])"


definition blockingMessage :: "string \<Rightarrow> string option" where
  "blockingMessage nm =
     (if nm = ''Dependency Installation'' then Some ''Dependency installation failed''
      else if nm = ''Testing'' then Some ''Tests failed''
      else if nm = ''Build'' then Some ''Build failed''
      else None)"

definition stepArgs :: "string \<Rightarrow> string list" where
  "stepArgs nm =
     (if nm = ''Dependency Installation'' then [''install'']
      else if nm = ''Linting'' then [''run'', ''lint'']
      else if nm = ''Testing'' then [''test'']
      else [''run'', ''build''])"

definition scanPassed :: "env \<Rightarrow> string \<Rightarrow> bool" where
  "scanPassed e projectPath =
     (case fst (scanProject e projectPath) of Inl msg \<Rightarrow> False | Inr scanResult \<Rightarrow> passed scanResult)"

text \<open>The stages between the prerequisite check and the deployment, in sequence.\<close>

definition mainStages ::
  "env \<Rightarrow> (string \<rightharpoonup> Template) \<Rightarrow> string \<Rightarrow> WorkflowConfig \<Rightarrow> stage" where
  "mainStages e templates projectPath cfg st =
     and_then (and_then (and_then (and_then (and_then
       (installStage e projectPath cfg st)
       (templateStage e templates projectPath cfg))
       (lintStage e projectPath cfg))
       (testStage e projectPath cfg))
       (securityStage e projectPath cfg))
       (buildStage e projectPath cfg)"

text \<open>
  What a stage (or a sequence of stages) that is to produce the steps \<open>seg\<close> does to the
  list of results: it appends results for an initial part of \<open>seg\<close>, all of \<open>seg\<close> when it
  does not throw; it throws only right after a failed blocking step, with that step's
  message, the step's command being the last thing done; a failed blocking step is the
  last result and makes the stage throw; a scan result carries the scan's verdict; the
  result for a template with a required variable is a failure with the validation
  errors of the empty record.
\<close>

definition stage_ok ::
  "env \<Rightarrow> (string \<rightharpoonup> Template) \<Rightarrow> string \<Rightarrow> string list \<Rightarrow> stage \<Rightarrow> bool" where
  "stage_ok e templates projectPath seg f =
     (\<forall>st thr st'. f st = (thr, st') \<longrightarrow>
        (\<exists>new. rs_steps st' = rs_steps st @ new \<and>
           length new \<le> length seg \<and>
           map step new = take (length new) seg \<and>
           (thr = None \<longrightarrow> length new = length seg) \<and>
           (thr \<noteq> None \<longrightarrow>
              new \<noteq> [] \<and> blockingMessage (step (last new)) = thr \<and> \<not> step_success (last new) \<and>
              trace (rs_world st') \<noteq> [] \<and>
              last (trace (rs_world st')) = Exec ''npm'' (stepArgs (step (last new))) projectPath) \<and>
           (\<forall>i < length new.
              blockingMessage (step (new ! i)) \<noteq> None \<and> \<not> step_success (new ! i) \<longrightarrow>
              Suc i = length new \<and> thr \<noteq> None) \<and>
           (\<forall>x \<in> set new. step x = ''Security Scan'' \<longrightarrow> step_success x = scanPassed e projectPath) \<and>
           (\<forall>x \<in> set new. \<forall>tid t.
              step x = ''Template Injection: '' @ tid \<and> templates tid = Some t \<and>
              (\<exists>v \<in> set (variables t). required v) \<longrightarrow>
              \<not> step_success x \<and> step_output x = ''Injected files: '' \<and>
              step_error x = join '', '' (snd (validateVariables t [])))))"

text \<open>
  The prerequisite check in words: both mandatory tools answered the version probe;
  the three probes; and the step the \<open>catch\<close> block pushes.
\<close>

definition prerequisitesMet :: "env \<Rightarrow> world \<Rightarrow> bool" where
  "prerequisitesMet e w =
     (case fst (checkPrerequisites e w) of (nodejs, npm, git) \<Rightarrow> nodejs \<and> npm)"

definition probes :: "env \<Rightarrow> action list" where
  "probes e =
     [Exec ''node'' [''--version''] (cwd e), Exec ''npm'' [''--version''] (cwd e),
      Exec ''git'' [''--version''] (cwd e)]"

definition syntheticStep :: "string \<Rightarrow> nat \<Rightarrow> PipelineResult" where
  "syntheticStep msg d =
     \<lparr>step = ''Workflow Execution'', step_success = False, step_output = [],
      step_error = msg, duration = d\<rparr>"

text \<open>
  A configuration with every stage but the deployment enabled and no template, and an
  environment in which the lint command fails and the scan finds a critical issue.
\<close>

definition full_config :: WorkflowConfig where
  "full_config =
     \<lparr>stepFlags = \<lparr>install = True, lint = True, test = True, security = True, build = True,
                   deploy_flag = False\<rparr>,
      deployment_cfg = \<lparr>deploy_target = NoTarget, autoDeploy = False, siteName = None\<rparr>,
      features = \<lparr>injectTemplates = [], runScripts = []\<rparr>\<rparr>"


text \<open>
  Configurations: nothing enabled; only the install stage; nothing enabled but one
  template requested; every stage but the deployment with the button template requested.
\<close>

definition idle_config :: WorkflowConfig where
  "idle_config =
     \<lparr>stepFlags = \<lparr>install = False, lint = False, test = False, security = False, build = False,
                   deploy_flag = False\<rparr>,
      deployment_cfg = \<lparr>deploy_target = NoTarget, autoDeploy = False, siteName = None\<rparr>,
      features = \<lparr>injectTemplates = [], runScripts = []\<rparr>\<rparr>"


definition bundle_only_config :: WorkflowConfig where
  "bundle_only_config =
     \<lparr>stepFlags = \<lparr>install = False, lint = False, test = False, security = False, build = False,
                   deploy_flag = False\<rparr>,
      deployment_cfg = \<lparr>deploy_target = NoTarget, autoDeploy = False, siteName = None\<rparr>,
      features = \<lparr>injectTemplates = [''bundle''], runScripts = []\<rparr>\<rparr>"


section \<open>Process Runner: launch failure and non-zero exit\<close>



section \<open>History Store: bound, insertion at the front, eviction from the tail\<close>

lemma save_history:
  "deploymentHistory (saveDeploymentHistory e pid tgt res w) =
     take 100 (entryOf e w 0 (pid, tgt, res) # deploymentHistory w)"
  by (simp add: saveDeploymentHistory_def entryOf_def Let_def)

lemma save_drawn: "drawn (saveDeploymentHistory e pid tgt res w) = Suc (drawn w)"
  by (simp add: saveDeploymentHistory_def Let_def)

lemma save_now: "now (saveDeploymentHistory e pid tgt res w) = now w"
  by (simp add: saveDeploymentHistory_def Let_def)

lemma take_append_take: "take n (xs @ take n ys) = take n (xs @ ys)"
  by (simp add: min_def)

lemma entriesFrom_Nil: "entriesFrom e w n [] = []"
  by (simp add: entriesFrom_def)

lemma entriesFrom_Cons:
  "entriesFrom e w n (a # as) = entryOf e w n a # entriesFrom e w (Suc n) as"
proof -
  have "[0..<length (a # as)] = 0 # map Suc [0..<length as]"
    by (simp add: upt_conv_Cons map_Suc_upt del: upt_Suc)
  then show ?thesis
    by (simp add: entriesFrom_def o_def)
qed

lemma entriesFrom_save:
  "entriesFrom e (saveDeploymentHistory e pid tgt res w) n as = entriesFrom e w (Suc n) as"
  by (simp add: entriesFrom_def entryOf_def save_drawn save_now)

lemma recordAll_Cons:
  "recordAll e ((pid, tgt, res) # as) w = recordAll e as (saveDeploymentHistory e pid tgt res w)"
  by (simp add: recordAll_def)

lemma recordAll_history:
  "deploymentHistory (recordAll e attempts w) =
     (if attempts = [] then deploymentHistory w
      else take 100 (rev (entriesFrom e w 0 attempts) @ deploymentHistory w))"
proof (induction attempts arbitrary: w)
  case Nil
  then show ?case by (simp add: recordAll_def)
next
  case (Cons a as)
  obtain pid tgt res where a: "a = (pid, tgt, res)" by (cases a) auto
  let ?w1 = "saveDeploymentHistory e pid tgt res w"
  have step: "deploymentHistory (recordAll e ((pid, tgt, res) # as) w) =
                deploymentHistory (recordAll e as ?w1)"
    by (simp add: recordAll_Cons)
  show ?case
  proof (cases "as = []")
    case True
    then show ?thesis
      by (simp add: step a recordAll_def entriesFrom_Cons entriesFrom_Nil save_history
          del: take_Cons_numeral)
  next
    case False
    have "deploymentHistory (recordAll e as ?w1) =
            take 100 (rev (entriesFrom e w (Suc 0) as) @
                      take 100 (entryOf e w 0 (pid, tgt, res) # deploymentHistory w))"
      using Cons.IH [of ?w1] False by (simp only: entriesFrom_save save_history if_False)
    also have "\<dots> = take 100 (rev (entriesFrom e w (Suc 0) as) @
                      entryOf e w 0 (pid, tgt, res) # deploymentHistory w)"
      by (rule take_append_take)
    finally show ?thesis
      by (simp only: step a entriesFrom_Cons rev.simps append_assoc append_Cons append_Nil
          list.distinct if_False)
  qed
qed

lemma recorded_150:
  assumes "length attempts = 150"
  shows "deploymentHistory (recordAll e attempts w) =
           rev (map (\<lambda>k. entryOf e w k (attempts ! k)) [50..<150])"
proof -
  have ne: "attempts \<noteq> []" using assms by auto
  have len: "length (entriesFrom e w 0 attempts) = 150"
    using assms by (simp add: entriesFrom_def)
  have "take 100 (rev (entriesFrom e w 0 attempts) @ deploymentHistory w)
          = take 100 (rev (entriesFrom e w 0 attempts))"
    using len by simp
  also have "\<dots> = rev (drop 50 (entriesFrom e w 0 attempts))"
    using len by (simp add: take_rev)
  also have "drop 50 (entriesFrom e w 0 attempts) =
               map (\<lambda>k. entryOf e w k (attempts ! k)) [50..<150]"
    using assms by (simp add: entriesFrom_def drop_map)
  finally show ?thesis using ne by (simp add: recordAll_history)
qed

text \<open>
  C2. One record operation puts the new entry at the front and keeps the first 100
  entries, so the store holds at most 100 entries after any non-empty sequence of record
  operations, whatever it held before. After 150 recorded attempts
  \<open>getDeploymentHistory()\<close> returns exactly 100 entries, the 150th recorded first and the
  51st recorded last, the ones between them in order of recency.
\<close>

theorem history_store_bounded_most_recent_first:
  "deploymentHistory (saveDeploymentHistory e pid tgt res w) =
     take 100 (entryOf e w 0 (pid, tgt, res) # deploymentHistory w) \<and>
   length (deploymentHistory (saveDeploymentHistory e pid tgt res w)) \<le> 100 \<and>
   (attempts \<noteq> [] \<longrightarrow> length (deploymentHistory (recordAll e attempts w)) \<le> 100) \<and>
   (length attempts = 150 \<longrightarrow>
      length (getDeploymentHistory None (recordAll e attempts w)) = 100 \<and>
      hd (getDeploymentHistory None (recordAll e attempts w)) = entryOf e w 149 (attempts ! 149) \<and>
      last (getDeploymentHistory None (recordAll e attempts w)) = entryOf e w 50 (attempts ! 50) \<and>
      getDeploymentHistory None (recordAll e attempts w) =
        rev (map (\<lambda>k. entryOf e w k (attempts ! k)) [50..<150]))"
proof (intro conjI impI)
  show "deploymentHistory (saveDeploymentHistory e pid tgt res w) =
          take 100 (entryOf e w 0 (pid, tgt, res) # deploymentHistory w)"
    by (rule save_history)
  show "length (deploymentHistory (saveDeploymentHistory e pid tgt res w)) \<le> 100"
    by (simp only: save_history length_take min.cobounded2)
  show "length (deploymentHistory (recordAll e attempts w)) \<le> 100" if "attempts \<noteq> []"
    using that by (simp only: recordAll_history if_False length_take min.cobounded2)
next
  assume len: "length attempts = 150"
  let ?f = "\<lambda>k. entryOf e w k (attempts ! k)"
  have all: "getDeploymentHistory None (recordAll e attempts w) = rev (map ?f [50..<150])"
    by (simp add: getDeploymentHistory_def recorded_150 [OF len])
  have up: "[50..<150] = 50 # [51..<149] @ [149::nat]"
    by (simp add: upt_rec [of 50] upt_Suc_append [symmetric] del: upt_Suc)
  show "getDeploymentHistory None (recordAll e attempts w) = rev (map ?f [50..<150])"
    by (rule all)
  show "length (getDeploymentHistory None (recordAll e attempts w)) = 100"
    by (simp add: all)
  show "hd (getDeploymentHistory None (recordAll e attempts w)) = ?f 149"
    by (simp only: all up map_append list.map rev_append rev.simps append_Nil append_Cons list.sel)
  show "last (getDeploymentHistory None (recordAll e attempts w)) = ?f 50"
    by (simp only: all up list.map rev.simps last_snoc)
qed

theorem history_store_bounded_most_recent_first_witness:
  "length (getDeploymentHistory None (recordAll base_env (map attempt [0..<150]) fresh_world)) = 100 \<and>
   dep_log (result (hd (getDeploymentHistory None
                          (recordAll base_env (map attempt [0..<150]) fresh_world)))) = ''149'' \<and>
   dep_log (result (last (getDeploymentHistory None
                          (recordAll base_env (map attempt [0..<150]) fresh_world)))) = ''50''"
proof -
  have h: "map attempt [0..<150] \<noteq> [] \<and> length (map attempt [0..<150]) = 150"
    by simp
  have a149: "map attempt [0..<150] ! 149 = attempt 149" and a50: "map attempt [0..<150] ! 50 = attempt 50"
    by (simp_all del: upt_Suc)
  have l149: "dep_log (snd (snd (attempt 149))) = ''149''"
    by code_simp
  have l50: "dep_log (snd (snd (attempt 50))) = ''50''"
    by code_simp
  show ?thesis
    using history_store_bounded_most_recent_first
            [of base_env "''p''" "''netlify''" "snd (snd (attempt 0))" fresh_world
                "map attempt [0..<150]"] h
    by (simp add: entryOf_def a149 a50 l149 l50 del: upt_Suc)
qed

section \<open>Fixed pipeline: order and the first blocking failure\<close>

lemma executeCommand_trace:
  "trace (snd (executeCommand e cmd as dir w)) = trace w @ [Exec cmd as dir]"
  by (simp add: executeCommand_def Let_def)

lemma executeStep_step: "step (fst (executeStep e nm cmd as dir w)) = nm"
  by (simp add: executeStep_def Let_def split: prod.splits)

lemma executeStep_success:
  "step_success (fst (executeStep e nm cmd as dir w)) =
     success (fst (executeCommand e cmd as dir w))"
  by (simp add: executeStep_def Let_def split: prod.splits)

lemma executeStep_world:
  "snd (executeStep e nm cmd as dir w) = snd (executeCommand e cmd as dir w)"
  by (simp add: executeStep_def Let_def split: prod.splits)

lemma executeStep_trace:
  "trace (snd (executeStep e nm cmd as dir w)) = trace w @ [Exec cmd as dir]"
  by (simp add: executeStep_world executeCommand_trace)

lemma pipelineLoop_shape:
  "pipelineLoop e ss acc w = (rs, w') \<Longrightarrow>
     \<exists>new. rs = acc @ new \<and> length new \<le> length ss \<and> (ss \<noteq> [] \<longrightarrow> new \<noteq> []) \<and>
       map step new = take (length new) (map name ss) \<and>
       trace w' = trace w @ map exec_of (take (length new) ss) \<and>
       (\<forall>i. Suc i < length new \<longrightarrow>
            step_success (new ! i) \<or> step (new ! i) = ''Security Audit'') \<and>
       (length new < length ss \<longrightarrow>
            \<not> step_success (last new) \<and> step (last new) \<noteq> ''Security Audit'')"
proof (induction ss arbitrary: acc w rs w')
  case Nil
  then show ?case by simp
next
  case (Cons s ss)
  obtain r w1 where ex:
    "executeStep e (name s) (command s) (args s) (workingDirectory s) w = (r, w1)"
    by (cases "executeStep e (name s) (command s) (args s) (workingDirectory s) w") auto
  have r_step: "step r = name s"
    using executeStep_step [of e "name s" "command s" "args s" "workingDirectory s" w] ex
    by simp
  have w1_trace: "trace w1 = trace w @ [exec_of s]"
    using executeStep_trace [of e "name s" "command s" "args s" "workingDirectory s" w] ex
    by (simp add: exec_of_def)
  show ?case
  proof (cases "\<not> step_success r \<and> name s \<noteq> ''Security Audit''")
    case True
    then have "rs = acc @ [r]" and "w' = w1"
      using Cons.prems ex by (simp_all add: Let_def)
    then show ?thesis
      using True r_step w1_trace by (intro exI [of _ "[r]"]) simp
  next
    case False
    then have "pipelineLoop e ss (acc @ [r]) w1 = (rs, w')"
      using Cons.prems ex by (auto simp add: Let_def split: if_splits)
    from Cons.IH [OF this] obtain new where new:
      "rs = (acc @ [r]) @ new" "length new \<le> length ss" "ss \<noteq> [] \<longrightarrow> new \<noteq> []"
      "map step new = take (length new) (map name ss)"
      "trace w' = trace w1 @ map exec_of (take (length new) ss)"
      "\<forall>i. Suc i < length new \<longrightarrow> step_success (new ! i) \<or> step (new ! i) = ''Security Audit''"
      "length new < length ss \<longrightarrow>
         \<not> step_success (last new) \<and> step (last new) \<noteq> ''Security Audit''"
      by blast
    have ok_r: "step_success r \<or> step r = ''Security Audit''"
      using False r_step by auto
    have all: "\<forall>i. Suc i < length (r # new) \<longrightarrow>
                 step_success ((r # new) ! i) \<or> step ((r # new) ! i) = ''Security Audit''"
    proof (intro allI impI)
      fix i assume "Suc i < length (r # new)"
      then show "step_success ((r # new) ! i) \<or> step ((r # new) ! i) = ''Security Audit''"
        using ok_r new(6) by (cases i) auto
    qed
    have lastc: "length (r # new) < length (s # ss) \<longrightarrow>
                   \<not> step_success (last (r # new)) \<and> step (last (r # new)) \<noteq> ''Security Audit''"
      using new(3,7) by auto
    show ?thesis
      using new(1,2,4,5) r_step w1_trace all lastc
      by (intro exI [of _ "r # new"]) simp
  qed
qed

lemma pipelineLoopTimed_agrees:
  "map untimed acc' = map untimed acc \<Longrightarrow>
     map untimed (fst (pipelineLoopTimed e ss acc' w)) = map untimed (fst (pipelineLoop e ss acc w)) \<and>
     snd (pipelineLoopTimed e ss acc' w) = snd (pipelineLoop e ss acc w)"
proof (induction ss arbitrary: acc acc' w)
  case Nil
  then show ?case by simp
next
  case (Cons s ss)
  let ?run = "spawn e (trace w) (command s) (args s) (workingDirectory s)"
  let ?res = "settle (chunks ?run) (ending ?run)"
  let ?w1 = "w\<lparr>trace := trace w @ [Exec (command s) (args s) (workingDirectory s)],
               now := now w + elapsed ?run\<rparr>"
  let ?r = "\<lparr>step = name s, step_success = success ?res, step_output = output ?res,
             step_error = error ?res, duration = now ?w1 - now w\<rparr>"
  let ?rt = "\<lparr>step = name s, step_success = success ?res, step_output = output ?res,
              step_error = error ?res,
              duration = (case (case ending ?run of CloseEv code \<Rightarrow> Some (elapsed ?run)
                                                   | ErrorEv msg \<Rightarrow> None) of
                            Some n \<Rightarrow> n | None \<Rightarrow> 0)\<rparr>"
  have "untimed ?rt = untimed ?r"
    by (simp add: untimed_def)
  then have same: "map untimed (acc' @ [?rt]) = map untimed (acc @ [?r])"
    using Cons.prems by simp
  have l: "pipelineLoop e (s # ss) acc w =
             (if \<not> success ?res \<and> name s \<noteq> ''Security Audit'' then (acc @ [?r], ?w1)
              else pipelineLoop e ss (acc @ [?r]) ?w1)"
    by (simp add: executeStep_def executeCommand_def Let_def)
  have lt: "pipelineLoopTimed e (s # ss) acc' w =
             (if \<not> success ?res \<and> name s \<noteq> ''Security Audit'' then (acc' @ [?rt], ?w1)
              else pipelineLoopTimed e ss (acc' @ [?rt]) ?w1)"
    by (simp add: executeCommandTimed_def Let_def)
  show ?case
  proof (cases "\<not> success ?res \<and> name s \<noteq> ''Security Audit''")
    case True
    then show ?thesis using same by (simp only: l lt if_True fst_conv snd_conv simp_thms)
  next
    case False
    then show ?thesis using Cons.IH [OF same, of ?w1] by (simp only: l lt if_False)
  qed
qed

text \<open>
  C4. The fixed pipeline attempts install, lint, test, security audit and build in that
  order: the results are those of an initial part of the five steps and the processes
  spawned are those of the same steps. Every result before the last succeeded or is the
  security audit, and when the run is shorter than five steps its last result is a
  failure of a step other than the security audit. When the install command does not
  succeed, the list is the single result \<open>Dependency Installation\<close> with
  \<open>success = false\<close> and only \<open>npm install\<close> was spawned. The stand-alone orchestrator
  returns the same results, up to the recorded durations, and leaves the same state.
\<close>

theorem fixed_pipeline_order_and_stop:
  "fst (runFullPipeline e projectPath w) \<noteq> [] \<and>
   length (fst (runFullPipeline e projectPath w)) \<le> 5 \<and>
   map step (fst (runFullPipeline e projectPath w)) =
     take (length (fst (runFullPipeline e projectPath w)))
       [''Dependency Installation'', ''Linting'', ''Testing'', ''Security Audit'', ''Build''] \<and>
   trace (snd (runFullPipeline e projectPath w)) =
     trace w @ map exec_of (take (length (fst (runFullPipeline e projectPath w)))
                                 (pipelineSteps projectPath)) \<and>
   (\<forall>i. Suc i < length (fst (runFullPipeline e projectPath w)) \<longrightarrow>
        step_success (fst (runFullPipeline e projectPath w) ! i) \<or>
        step (fst (runFullPipeline e projectPath w) ! i) = ''Security Audit'') \<and>
   (length (fst (runFullPipeline e projectPath w)) < 5 \<longrightarrow>
        \<not> step_success (last (fst (runFullPipeline e projectPath w))) \<and>
        step (last (fst (runFullPipeline e projectPath w))) \<noteq> ''Security Audit'') \<and>
   (\<not> success (fst (executeCommand e ''npm'' [''install''] projectPath w)) \<longrightarrow>
        length (fst (runFullPipeline e projectPath w)) = 1 \<and>
        step (hd (fst (runFullPipeline e projectPath w))) = ''Dependency Installation'' \<and>
        \<not> step_success (hd (fst (runFullPipeline e projectPath w))) \<and>
        trace (snd (runFullPipeline e projectPath w)) =
          trace w @ [Exec ''npm'' [''install''] projectPath]) \<and>
   map untimed (fst (runFullPipelineTimed e projectPath w)) =
     map untimed (fst (runFullPipeline e projectPath w)) \<and>
   snd (runFullPipelineTimed e projectPath w) = snd (runFullPipeline e projectPath w)"
proof -
  obtain rs w' where run: "runFullPipeline e projectPath w = (rs, w')"
    by (cases "runFullPipeline e projectPath w") auto
  then have loop: "pipelineLoop e (pipelineSteps projectPath) [] w = (rs, w')"
    by (simp add: runFullPipeline_def)
  have names: "map name (pipelineSteps projectPath) =
                 [''Dependency Installation'', ''Linting'', ''Testing'', ''Security Audit'', ''Build'']"
    by (simp add: pipelineSteps_def)
  have len5: "length (pipelineSteps projectPath) = 5"
    by (simp add: pipelineSteps_def)
  from pipelineLoop_shape [OF loop] obtain new where new:
    "rs = [] @ new" "length new \<le> length (pipelineSteps projectPath)"
    "pipelineSteps projectPath \<noteq> [] \<longrightarrow> new \<noteq> []"
    "map step new = take (length new) (map name (pipelineSteps projectPath))"
    "trace w' = trace w @ map exec_of (take (length new) (pipelineSteps projectPath))"
    "\<forall>i. Suc i < length new \<longrightarrow> step_success (new ! i) \<or> step (new ! i) = ''Security Audit''"
    "length new < length (pipelineSteps projectPath) \<longrightarrow>
       \<not> step_success (last new) \<and> step (last new) \<noteq> ''Security Audit''"
    by blast
  have rs: "rs = new" using new(1) by simp
  have ne: "rs \<noteq> []" using new(3) rs len5 by auto
  have install: "length rs = 1 \<and> step (hd rs) = ''Dependency Installation'' \<and>
                 \<not> step_success (hd rs) \<and> trace w' = trace w @ [Exec ''npm'' [''install''] projectPath]"
    if fail: "\<not> success (fst (executeCommand e ''npm'' [''install''] projectPath w))"
  proof -
    obtain r w1 where ex:
      "executeStep e ''Dependency Installation'' ''npm'' [''install''] projectPath w = (r, w1)"
      by (cases "executeStep e ''Dependency Installation'' ''npm'' [''install''] projectPath w") auto
    have r1: "step r = ''Dependency Installation''"
      using executeStep_step [of e "''Dependency Installation''" "''npm''" "[''install'']" projectPath w] ex
      by simp
    have r2: "\<not> step_success r"
      using executeStep_success [of e "''Dependency Installation''" "''npm''" "[''install'']" projectPath w]
        ex fail by simp
    have r3: "trace w1 = trace w @ [Exec ''npm'' [''install''] projectPath]"
      using executeStep_trace [of e "''Dependency Installation''" "''npm''" "[''install'']" projectPath w] ex
      by simp
    have "pipelineLoop e (pipelineSteps projectPath) [] w = ([r], w1)"
      using ex r2 by (simp add: pipelineSteps_def Let_def)
    then have "rs = [r]" and "w' = w1" using loop by simp_all
    then show ?thesis using r1 r2 r3 by simp
  qed
  have timed: "map untimed (fst (runFullPipelineTimed e projectPath w)) = map untimed rs \<and>
               snd (runFullPipelineTimed e projectPath w) = w'"
    using pipelineLoopTimed_agrees [of "[]" "[]" e "pipelineSteps projectPath" w] loop
    by (simp add: runFullPipelineTimed_def)
  show ?thesis
    unfolding run fst_conv snd_conv
    using ne new(2,4,5,6,7) install timed
    unfolding rs names len5 by blast
qed

theorem fixed_pipeline_order_and_stop_witness:
  "(length (fst (runFullPipeline (failing_env ''npm'' [''install'']) ''/p'' fresh_world)) = 1 \<and>
    step (hd (fst (runFullPipeline (failing_env ''npm'' [''install'']) ''/p'' fresh_world))) =
      ''Dependency Installation'' \<and>
    \<not> step_success (hd (fst (runFullPipeline (failing_env ''npm'' [''install'']) ''/p'' fresh_world))) \<and>
    trace (snd (runFullPipeline (failing_env ''npm'' [''install'']) ''/p'' fresh_world)) =
      [Exec ''npm'' [''install''] ''/p'']) \<and>
   (length (fst (runFullPipeline (failing_env ''npm'' [''run'', ''lint'']) ''/p'' fresh_world)) = 2 \<and>
    step_success (fst (runFullPipeline (failing_env ''npm'' [''run'', ''lint'']) ''/p'' fresh_world) ! 0) \<and>
    \<not> step_success (last (fst (runFullPipeline (failing_env ''npm'' [''run'', ''lint'']) ''/p'' fresh_world))))"
proof -
  have hA: "\<not> success (fst (executeCommand (failing_env ''npm'' [''install'']) ''npm'' [''install'']
                               ''/p'' fresh_world))"
    by (simp add: executeCommand_def failing_env_def failed_run_def Let_def)
  have tA: "trace fresh_world = []"
    by (simp add: fresh_world_def)
  have lB: "length (fst (runFullPipeline (failing_env ''npm'' [''run'', ''lint'']) ''/p'' fresh_world)) = 2"
    by code_simp
  have sB: "step (fst (runFullPipeline (failing_env ''npm'' [''run'', ''lint'']) ''/p'' fresh_world) ! 0)
              \<noteq> ''Security Audit''"
    by code_simp
  have A: "length (fst (runFullPipeline (failing_env ''npm'' [''install'']) ''/p'' fresh_world)) = 1 \<and>
    step (hd (fst (runFullPipeline (failing_env ''npm'' [''install'']) ''/p'' fresh_world))) =
      ''Dependency Installation'' \<and>
    \<not> step_success (hd (fst (runFullPipeline (failing_env ''npm'' [''install'']) ''/p'' fresh_world))) \<and>
    trace (snd (runFullPipeline (failing_env ''npm'' [''install'']) ''/p'' fresh_world)) =
      trace fresh_world @ [Exec ''npm'' [''install''] ''/p'']"
    using fixed_pipeline_order_and_stop [of "failing_env ''npm'' [''install'']" "''/p''" fresh_world] hA
    by blast
  have B1: "Suc 0 < length (fst (runFullPipeline (failing_env ''npm'' [''run'', ''lint'']) ''/p'' fresh_world))
            \<longrightarrow> step_success (fst (runFullPipeline (failing_env ''npm'' [''run'', ''lint'']) ''/p'' fresh_world) ! 0) \<or>
                step (fst (runFullPipeline (failing_env ''npm'' [''run'', ''lint'']) ''/p'' fresh_world) ! 0) =
                  ''Security Audit''"
    using fixed_pipeline_order_and_stop [of "failing_env ''npm'' [''run'', ''lint'']" "''/p''" fresh_world]
    by blast
  have B2: "length (fst (runFullPipeline (failing_env ''npm'' [''run'', ''lint'']) ''/p'' fresh_world)) < 5
            \<longrightarrow> \<not> step_success (last (fst (runFullPipeline (failing_env ''npm'' [''run'', ''lint''])
                                               ''/p'' fresh_world)))"
    using fixed_pipeline_order_and_stop [of "failing_env ''npm'' [''run'', ''lint'']" "''/p''" fresh_world]
    by blast
  show ?thesis
    using A B1 B2 sB by (simp add: tA lB)
qed

section \<open>Deployment flows and the history\<close>

text \<open>
  C1. With the Netlify CLI absent and its global install failing, the deployment
  returns \<open>success = false\<close> with a log that ends in the install failure message, after
  the version probe and the install and nothing else; but no entry is recorded: the
  history is as empty as before and no history document has been written.
\<close>

theorem netlify_install_failure_not_recorded:
  "dep_success (fst (deploy no_netlify_env (NetlifyFlow None) ''/p'' fresh_world)) = False \<and>
   dep_log (fst (deploy no_netlify_env (NetlifyFlow None) ''/p'' fresh_world)) =
     ''Starting Netlify deployment for: /p'' @ newline @
     ''Netlify CLI not found. Attempting to install...'' @ newline @
     ''Failed to install Netlify CLI: npm ERR! code EACCES'' \<and>
   trace (snd (deploy no_netlify_env (NetlifyFlow None) ''/p'' fresh_world)) =
     [Exec ''netlify'' [''--version''] ''/p'',
      Exec ''npm'' [''install'', ''-g'', ''netlify-cli''] ''/app''] \<and>
   getDeploymentHistory None (snd (deploy no_netlify_env (NetlifyFlow None) ''/p'' fresh_world)) = [] \<and>
   historyFile (snd (deploy no_netlify_env (NetlifyFlow None) ''/p'' fresh_world)) = None"
  by (simp add: deployToNetlify_def installNetlifyCLI_def executeCommand_def no_netlify_env_def
      base_env_def failed_run_def fresh_world_def getDeploymentHistory_def trim_def newline_def
      js_space_def Let_def)

text \<open>
  The paths of the three flows that reach the publish step (or, for the static pages,
  a successful build) do record their result, failed or not, as the newest entry.
\<close>

lemma save_result_hd:
  "result (hd (deploymentHistory (saveDeploymentHistory e pid tgt res w))) = res"
  by (simp add: save_history entryOf_def)

lemma netlifyPublish_records:
  "result (hd (deploymentHistory (snd (netlifyPublish e projectPath sn lg w)))) =
     fst (netlifyPublish e projectPath sn lg w)"
proof -
  obtain r1 w1 where a:
    "executeCommand e ''netlify'' [''init'', ''--force''] projectPath w = (r1, w1)"
    by (cases "executeCommand e ''netlify'' [''init'', ''--force''] projectPath w") auto
  obtain r2 w2 where b:
    "executeCommand e ''netlify''
       ([''deploy'', ''--prod'', ''--json''] @ (if given sn then [''--site'', the sn] else []))
       projectPath w1 = (r2, w2)"
    by (cases "executeCommand e ''netlify''
       ([''deploy'', ''--prod'', ''--json''] @ (if given sn then [''--site'', the sn] else []))
       projectPath w1") auto
  show ?thesis
    unfolding netlifyPublish_def Let_def a b prod.case
    by (simp only: save_result_hd fst_conv snd_conv split: prod.splits) simp
qed

lemma vercelPublish_records:
  "result (hd (deploymentHistory (snd (vercelPublish e projectPath pn lg w)))) =
     fst (vercelPublish e projectPath pn lg w)"
proof -
  obtain r1 w1 where a:
    "executeCommand e ''vercel''
       ([''--prod'', ''--confirm''] @ (if given pn then [''--name'', the pn] else []))
       projectPath w = (r1, w1)"
    by (cases "executeCommand e ''vercel''
       ([''--prod'', ''--confirm''] @ (if given pn then [''--name'', the pn] else []))
       projectPath w") auto
  show ?thesis
    unfolding vercelPublish_def Let_def a prod.case
    by (simp only: save_result_hd fst_conv snd_conv)
qed

lemma pages_records:
  assumes "success (fst (executeCommand e ''npm'' [''run'', ''build''] projectPath w))"
  shows "result (hd (deploymentHistory (snd (deployToGitHubPages e projectPath repoUrl w)))) =
           fst (deployToGitHubPages e projectPath repoUrl w)"
proof -
  obtain r1 w1 where a: "executeCommand e ''npm'' [''run'', ''build''] projectPath w = (r1, w1)"
    by (cases "executeCommand e ''npm'' [''run'', ''build''] projectPath w") auto
  have ok: "success r1" using assms a by simp
  show ?thesis
    unfolding deployToGitHubPages_def Let_def a prod.case
    by (simp only: ok save_result_hd fst_conv snd_conv not_True_eq_False if_False)
qed

section \<open>Template injection: the dependency merge\<close>














section \<open>Template injection: validation before any write\<close>

lemma validateLoop_concat:
  "validateLoop vars vs errs = errs @ concat (map (variableErrors vars) vs)"
  by (induction vs arbitrary: errs) (simp_all add: variableErrors_def Let_def)

lemma validateVariables_errors:
  "snd (validateVariables t vars) = concat (map (variableErrors vars) (variables t)) \<and>
   fst (validateVariables t vars) = (concat (map (variableErrors vars) (variables t)) = [])"
  by (simp add: validateVariables_def validateLoop_concat Let_def)






lemma injectTemplate_invalid:
  assumes "templates tid = Some t" and "\<not> fst (validateVariables t vars)"
  shows "injectTemplate e templates tid targetPath vars w =
           (\<lparr>inj_success = False, injectedFiles = [], installedDependencies = [],
             errors = snd (validateVariables t vars)\<rparr>,
            w\<lparr>trace := trace w @ [Inject tid targetPath]\<rparr>)"
proof -
  obtain verrs where v: "validateVariables t vars = (False, verrs)"
    using assms(2) by (cases "validateVariables t vars") auto
  show ?thesis
    using assms(1) by (simp add: injectTemplate_def Let_def v)
qed




section \<open>The configurable workflow: what each stage appends\<close>

lemma and_then_assoc:
  "and_then (and_then r f) g = and_then r (\<lambda>st. and_then (f st) g)"
  by (cases r) (auto simp add: and_then_def split: option.splits)

lemma and_then_None: "and_then (None, st) f = f st"
  by (simp add: and_then_def)

lemma and_then_Some: "and_then (Some msg, st) f = (Some msg, st)"
  by (simp add: and_then_def)

lemma workflowBody_split:
  "workflowBody e templates projectPath cfg st =
     and_then (prerequisiteStage e st)
       (\<lambda>st1. and_then (mainStages e templates projectPath cfg st1) (deployStage e projectPath cfg))"
  by (simp add: workflowBody_def mainStages_def and_then_assoc)

lemma stage_ok_seq:
  assumes f: "stage_ok e templates projectPath seg1 f"
    and g: "stage_ok e templates projectPath seg2 g"
  shows "stage_ok e templates projectPath (seg1 @ seg2) (\<lambda>st. and_then (f st) g)"
  unfolding stage_ok_def
proof (intro allI impI)
  fix st thr st'
  assume run: "and_then (f st) g = (thr, st')"
  obtain thr1 st1 where f1: "f st = (thr1, st1)" by (cases "f st") auto
  from f [unfolded stage_ok_def, rule_format, OF f1] obtain new1 where n1:
    "rs_steps st1 = rs_steps st @ new1" "length new1 \<le> length seg1"
    "map step new1 = take (length new1) seg1"
    "thr1 = None \<longrightarrow> length new1 = length seg1"
    "thr1 \<noteq> None \<longrightarrow>
       new1 \<noteq> [] \<and> blockingMessage (step (last new1)) = thr1 \<and> \<not> step_success (last new1) \<and>
       trace (rs_world st1) \<noteq> [] \<and>
       last (trace (rs_world st1)) = Exec ''npm'' (stepArgs (step (last new1))) projectPath"
    "\<forall>i < length new1.
       blockingMessage (step (new1 ! i)) \<noteq> None \<and> \<not> step_success (new1 ! i) \<longrightarrow>
       Suc i = length new1 \<and> thr1 \<noteq> None"
    "\<forall>x \<in> set new1. step x = ''Security Scan'' \<longrightarrow> step_success x = scanPassed e projectPath"
    "\<forall>x \<in> set new1. \<forall>tid t.
       step x = ''Template Injection: '' @ tid \<and> templates tid = Some t \<and>
       (\<exists>v \<in> set (variables t). required v) \<longrightarrow>
       \<not> step_success x \<and> step_output x = ''Injected files: '' \<and>
       step_error x = join '', '' (snd (validateVariables t []))"
    by blast
  show "\<exists>new. rs_steps st' = rs_steps st @ new \<and>
           length new \<le> length (seg1 @ seg2) \<and>
           map step new = take (length new) (seg1 @ seg2) \<and>
           (thr = None \<longrightarrow> length new = length (seg1 @ seg2)) \<and>
           (thr \<noteq> None \<longrightarrow>
              new \<noteq> [] \<and> blockingMessage (step (last new)) = thr \<and> \<not> step_success (last new) \<and>
              trace (rs_world st') \<noteq> [] \<and>
              last (trace (rs_world st')) = Exec ''npm'' (stepArgs (step (last new))) projectPath) \<and>
           (\<forall>i < length new.
              blockingMessage (step (new ! i)) \<noteq> None \<and> \<not> step_success (new ! i) \<longrightarrow>
              Suc i = length new \<and> thr \<noteq> None) \<and>
           (\<forall>x \<in> set new. step x = ''Security Scan'' \<longrightarrow> step_success x = scanPassed e projectPath) \<and>
           (\<forall>x \<in> set new. \<forall>tid t.
              step x = ''Template Injection: '' @ tid \<and> templates tid = Some t \<and>
              (\<exists>v \<in> set (variables t). required v) \<longrightarrow>
              \<not> step_success x \<and> step_output x = ''Injected files: '' \<and>
              step_error x = join '', '' (snd (validateVariables t [])))"
  proof (cases thr1)
    case (Some msg)
    then have same: "thr = thr1" "st' = st1"
      using run f1 by (simp_all add: and_then_def)
    show ?thesis
      using n1 Some unfolding same
      by (intro exI [of _ new1]) (simp add: min_def)
  next
    case None
    then have g2: "g st1 = (thr, st')"
      using run f1 by (simp add: and_then_def)
    from g [unfolded stage_ok_def, rule_format, OF g2] obtain new2 where n2:
      "rs_steps st' = rs_steps st1 @ new2" "length new2 \<le> length seg2"
      "map step new2 = take (length new2) seg2"
      "thr = None \<longrightarrow> length new2 = length seg2"
      "thr \<noteq> None \<longrightarrow>
         new2 \<noteq> [] \<and> blockingMessage (step (last new2)) = thr \<and> \<not> step_success (last new2) \<and>
         trace (rs_world st') \<noteq> [] \<and>
         last (trace (rs_world st')) = Exec ''npm'' (stepArgs (step (last new2))) projectPath"
      "\<forall>i < length new2.
         blockingMessage (step (new2 ! i)) \<noteq> None \<and> \<not> step_success (new2 ! i) \<longrightarrow>
         Suc i = length new2 \<and> thr \<noteq> None"
      "\<forall>x \<in> set new2. step x = ''Security Scan'' \<longrightarrow> step_success x = scanPassed e projectPath"
      "\<forall>x \<in> set new2. \<forall>tid t.
         step x = ''Template Injection: '' @ tid \<and> templates tid = Some t \<and>
         (\<exists>v \<in> set (variables t). required v) \<longrightarrow>
         \<not> step_success x \<and> step_output x = ''Injected files: '' \<and>
         step_error x = join '', '' (snd (validateVariables t []))"
      by blast
    have len1: "length new1 = length seg1" using n1(4) None by simp
    have names1: "map step new1 = seg1" using n1(3) len1 by simp
    have noblock: "\<forall>i < length new1.
         \<not> (blockingMessage (step (new1 ! i)) \<noteq> None \<and> \<not> step_success (new1 ! i))"
      using n1(6) None by blast
    have idx: "\<forall>i < length (new1 @ new2).
              blockingMessage (step ((new1 @ new2) ! i)) \<noteq> None \<and> \<not> step_success ((new1 @ new2) ! i) \<longrightarrow>
              Suc i = length (new1 @ new2) \<and> thr \<noteq> None"
    proof (intro allI impI)
      fix i
      assume i: "i < length (new1 @ new2)"
        and b: "blockingMessage (step ((new1 @ new2) ! i)) \<noteq> None \<and>
                \<not> step_success ((new1 @ new2) ! i)"
      show "Suc i = length (new1 @ new2) \<and> thr \<noteq> None"
      proof (cases "i < length new1")
        case True
        then show ?thesis using b noblock by (auto simp add: nth_append)
      next
        case False
        then have "i - length new1 < length new2" using i by simp
        moreover have "(new1 @ new2) ! i = new2 ! (i - length new1)"
          using False by (simp add: nth_append)
        ultimately have "Suc (i - length new1) = length new2 \<and> thr \<noteq> None"
          using n2(6) b by simp
        then show ?thesis using False by (simp, arith)
      qed
    qed
    have names: "map step (new1 @ new2) = take (length (new1 @ new2)) (seg1 @ seg2)"
      using names1 n2(3) len1 by simp
    have thrown: "thr \<noteq> None \<longrightarrow>
              new1 @ new2 \<noteq> [] \<and> blockingMessage (step (last (new1 @ new2))) = thr \<and>
              \<not> step_success (last (new1 @ new2)) \<and> trace (rs_world st') \<noteq> [] \<and>
              last (trace (rs_world st')) =
                Exec ''npm'' (stepArgs (step (last (new1 @ new2)))) projectPath"
      using n2(5) by simp
    have sec: "\<forall>x \<in> set (new1 @ new2). step x = ''Security Scan'' \<longrightarrow>
                 step_success x = scanPassed e projectPath"
      using n1(7) n2(7) by auto
    have tmpl: "\<forall>x \<in> set (new1 @ new2). \<forall>tid t.
         step x = ''Template Injection: '' @ tid \<and> templates tid = Some t \<and>
         (\<exists>v \<in> set (variables t). required v) \<longrightarrow>
         \<not> step_success x \<and> step_output x = ''Injected files: '' \<and>
         step_error x = join '', '' (snd (validateVariables t []))"
      using n1(8) n2(8) by (metis Un_iff set_append)
    have lens: "length (new1 @ new2) \<le> length (seg1 @ seg2)"
      using len1 n2(2) by simp
    have full: "thr = None \<longrightarrow> length (new1 @ new2) = length (seg1 @ seg2)"
      using len1 n2(4) by simp
    have steps: "rs_steps st' = rs_steps st @ (new1 @ new2)"
      using n1(1) n2(1) by simp
    show ?thesis
      using steps lens names full thrown idx sec tmpl
      by (intro exI [of _ "new1 @ new2"]) blast
  qed
qed

lemma stage_ok_skip: "stage_ok e templates projectPath [] (\<lambda>st. (None, st))"
  by (simp add: stage_ok_def)

lemma stage_ok_single:
  assumes steps: "\<And>st. rs_steps (snd (f st)) = rs_steps st @ [r st]"
    and name: "\<And>st. step (r st) = nm"
    and thrown: "\<And>st. fst (f st) = (if \<not> step_success (r st) then blockingMessage nm else None)"
    and tr: "\<And>st. blockingMessage nm \<noteq> None \<Longrightarrow>
               trace (rs_world (snd (f st))) =
                 trace (rs_world st) @ [Exec ''npm'' (stepArgs nm) projectPath]"
    and scan: "\<And>st. nm = ''Security Scan'' \<Longrightarrow> step_success (r st) = scanPassed e projectPath"
    and tmpl: "\<And>tid. nm \<noteq> ''Template Injection: '' @ tid"
  shows "stage_ok e templates projectPath [nm] f"
  unfolding stage_ok_def
proof (intro allI impI)
  fix st :: run_state and thr st'
  assume run: "f st = (thr, st')"
  have thr: "thr = (if \<not> step_success (r st) then blockingMessage nm else None)"
    using thrown [of st] run by simp
  have st': "rs_steps st' = rs_steps st @ [r st]"
    using steps [of st] run by simp
  have c1: "length [r st] \<le> length [nm]" by simp
  have c2: "map step [r st] = take (length [r st]) [nm]" by (simp add: name)
  have c3: "thr = None \<longrightarrow> length [r st] = length [nm]" by simp
  have c4: "thr \<noteq> None \<longrightarrow>
              [r st] \<noteq> [] \<and> blockingMessage (step (last [r st])) = thr \<and>
              \<not> step_success (last [r st]) \<and> trace (rs_world st') \<noteq> [] \<and>
              last (trace (rs_world st')) = Exec ''npm'' (stepArgs (step (last [r st]))) projectPath"
  proof
    assume t: "thr \<noteq> None"
    then have a: "\<not> step_success (r st)" and b: "blockingMessage nm = thr"
      using thr by (simp_all split: if_splits)
    have "blockingMessage nm \<noteq> None" using b t by simp
    from tr [OF this, of st] have "trace (rs_world st') =
        trace (rs_world st) @ [Exec ''npm'' (stepArgs nm) projectPath]"
      using run by simp
    then show "[r st] \<noteq> [] \<and> blockingMessage (step (last [r st])) = thr \<and>
              \<not> step_success (last [r st]) \<and> trace (rs_world st') \<noteq> [] \<and>
              last (trace (rs_world st')) = Exec ''npm'' (stepArgs (step (last [r st]))) projectPath"
      using a b by (simp add: name)
  qed
  have c5: "\<forall>i < length [r st].
              blockingMessage (step ([r st] ! i)) \<noteq> None \<and> \<not> step_success ([r st] ! i) \<longrightarrow>
              Suc i = length [r st] \<and> thr \<noteq> None"
    using thr by (simp add: name)
  have c6: "\<forall>x \<in> set [r st]. step x = ''Security Scan'' \<longrightarrow>
              step_success x = scanPassed e projectPath"
    using scan [of st] by (simp add: name)
  have c7: "\<forall>x \<in> set [r st]. \<forall>tid t.
              step x = ''Template Injection: '' @ tid \<and> templates tid = Some t \<and>
              (\<exists>v \<in> set (variables t). required v) \<longrightarrow>
              \<not> step_success x \<and> step_output x = ''Injected files: '' \<and>
              step_error x = join '', '' (snd (validateVariables t []))"
    using tmpl by (simp add: name)
  show "\<exists>new. rs_steps st' = rs_steps st @ new \<and>
           length new \<le> length [nm] \<and>
           map step new = take (length new) [nm] \<and>
           (thr = None \<longrightarrow> length new = length [nm]) \<and>
           (thr \<noteq> None \<longrightarrow>
              new \<noteq> [] \<and> blockingMessage (step (last new)) = thr \<and> \<not> step_success (last new) \<and>
              trace (rs_world st') \<noteq> [] \<and>
              last (trace (rs_world st')) = Exec ''npm'' (stepArgs (step (last new))) projectPath) \<and>
           (\<forall>i < length new.
              blockingMessage (step (new ! i)) \<noteq> None \<and> \<not> step_success (new ! i) \<longrightarrow>
              Suc i = length new \<and> thr \<noteq> None) \<and>
           (\<forall>x \<in> set new. step x = ''Security Scan'' \<longrightarrow> step_success x = scanPassed e projectPath) \<and>
           (\<forall>x \<in> set new. \<forall>tid t.
              step x = ''Template Injection: '' @ tid \<and> templates tid = Some t \<and>
              (\<exists>v \<in> set (variables t). required v) \<longrightarrow>
              \<not> step_success x \<and> step_output x = ''Injected files: '' \<and>
              step_error x = join '', '' (snd (validateVariables t [])))"
    using st' c1 c2 c3 c4 c5 c6 c7 by (intro exI [of _ "[r st]"] conjI)
qed

lemma installStage_ok:
  "stage_ok e templates projectPath
     (if install (stepFlags cfg) then [''Dependency Installation''] else [])
     (installStage e projectPath cfg)"
proof (cases "install (stepFlags cfg)")
  case True
  let ?r = "\<lambda>st. fst (executeStep e ''Dependency Installation'' ''npm'' [''install'']
                         projectPath (rs_world st))"
  have msg: "blockingMessage ''Dependency Installation'' = Some ''Dependency installation failed''"
    and args: "stepArgs ''Dependency Installation'' = [''install'']"
    by (simp_all add: blockingMessage_def stepArgs_def)
  have "stage_ok e templates projectPath [''Dependency Installation''] (installStage e projectPath cfg)"
  proof (rule stage_ok_single [where r = ?r])
    fix st :: run_state
    show "rs_steps (snd (installStage e projectPath cfg st)) = rs_steps st @ [?r st]"
      using True by (simp add: installStage_def push_def split: prod.splits)
    show "step (?r st) = ''Dependency Installation''"
      by (rule executeStep_step)
    show "fst (installStage e projectPath cfg st) =
            (if \<not> step_success (?r st) then blockingMessage ''Dependency Installation'' else None)"
      using True by (simp add: installStage_def msg split: prod.splits)
    show "trace (rs_world (snd (installStage e projectPath cfg st))) =
            trace (rs_world st) @
              [Exec ''npm'' (stepArgs ''Dependency Installation'') projectPath]"
      using True executeStep_trace [of e "''Dependency Installation''" "''npm''" "[''install'']"
          projectPath "rs_world st"]
      by (auto simp add: installStage_def push_def args split: prod.splits)
    show "step_success (?r st) = scanPassed e projectPath"
      if "''Dependency Installation'' = ''Security Scan''"
      using that by simp
  next
    fix tid :: string
    show "''Dependency Installation'' \<noteq> ''Template Injection: '' @ tid" by simp
  qed
  then show ?thesis using True by simp
next
  case False
  then have "installStage e projectPath cfg = (\<lambda>st. (None, st))"
    by (simp add: fun_eq_iff installStage_def)
  then show ?thesis using False stage_ok_skip by simp
qed

lemma lintStage_ok:
  "stage_ok e templates projectPath
     (if lint (stepFlags cfg) then [''Linting''] else [])
     (lintStage e projectPath cfg)"
proof (cases "lint (stepFlags cfg)")
  case True
  let ?r = "\<lambda>st. fst (executeStep e ''Linting'' ''npm'' [''run'', ''lint'']
                         projectPath (rs_world st))"
  have msg: "blockingMessage ''Linting'' = None"
    by (simp add: blockingMessage_def)
  have "stage_ok e templates projectPath [''Linting''] (lintStage e projectPath cfg)"
  proof (rule stage_ok_single [where r = ?r])
    fix st :: run_state
    show "rs_steps (snd (lintStage e projectPath cfg st)) = rs_steps st @ [?r st]"
      using True by (simp add: lintStage_def push_def split: prod.splits)
    show "step (?r st) = ''Linting''"
      by (rule executeStep_step)
    show "fst (lintStage e projectPath cfg st) =
            (if \<not> step_success (?r st) then blockingMessage ''Linting'' else None)"
      using True by (simp add: lintStage_def msg split: prod.splits)
    show "trace (rs_world (snd (lintStage e projectPath cfg st))) =
            trace (rs_world st) @ [Exec ''npm'' (stepArgs ''Linting'') projectPath]"
      if "blockingMessage ''Linting'' \<noteq> None"
      using that msg by simp
    show "step_success (?r st) = scanPassed e projectPath"
      if "''Linting'' = ''Security Scan''"
      using that by simp
  next
    fix tid :: string
    show "''Linting'' \<noteq> ''Template Injection: '' @ tid" by simp
  qed
  then show ?thesis using True by simp
next
  case False
  then have "lintStage e projectPath cfg = (\<lambda>st. (None, st))"
    by (simp add: fun_eq_iff lintStage_def)
  then show ?thesis using False stage_ok_skip by simp
qed

lemma testStage_ok:
  "stage_ok e templates projectPath
     (if test (stepFlags cfg) then [''Testing''] else [])
     (testStage e projectPath cfg)"
proof (cases "test (stepFlags cfg)")
  case True
  let ?r = "\<lambda>st. fst (executeStep e ''Testing'' ''npm'' [''test''] projectPath (rs_world st))"
  have msg: "blockingMessage ''Testing'' = Some ''Tests failed''"
    and args: "stepArgs ''Testing'' = [''test'']"
    by (simp_all add: blockingMessage_def stepArgs_def)
  have "stage_ok e templates projectPath [''Testing''] (testStage e projectPath cfg)"
  proof (rule stage_ok_single [where r = ?r])
    fix st :: run_state
    show "rs_steps (snd (testStage e projectPath cfg st)) = rs_steps st @ [?r st]"
      using True by (simp add: testStage_def push_def split: prod.splits)
    show "step (?r st) = ''Testing''"
      by (rule executeStep_step)
    show "fst (testStage e projectPath cfg st) =
            (if \<not> step_success (?r st) then blockingMessage ''Testing'' else None)"
      using True by (simp add: testStage_def msg split: prod.splits)
    show "trace (rs_world (snd (testStage e projectPath cfg st))) =
            trace (rs_world st) @ [Exec ''npm'' (stepArgs ''Testing'') projectPath]"
      using True executeStep_trace [of e "''Testing''" "''npm''" "[''test'']"
          projectPath "rs_world st"]
      by (auto simp add: testStage_def push_def args split: prod.splits)
    show "step_success (?r st) = scanPassed e projectPath"
      if "''Testing'' = ''Security Scan''"
      using that by simp
  next
    fix tid :: string
    show "''Testing'' \<noteq> ''Template Injection: '' @ tid" by simp
  qed
  then show ?thesis using True by simp
next
  case False
  then have "testStage e projectPath cfg = (\<lambda>st. (None, st))"
    by (simp add: fun_eq_iff testStage_def)
  then show ?thesis using False stage_ok_skip by simp
qed

lemma buildStage_ok:
  "stage_ok e templates projectPath
     (if build (stepFlags cfg) then [''Build''] else [])
     (buildStage e projectPath cfg)"
proof (cases "build (stepFlags cfg)")
  case True
  let ?r = "\<lambda>st. fst (executeStep e ''Build'' ''npm'' [''run'', ''build''] projectPath (rs_world st))"
  have msg: "blockingMessage ''Build'' = Some ''Build failed''"
    and args: "stepArgs ''Build'' = [''run'', ''build'']"
    by (simp_all add: blockingMessage_def stepArgs_def)
  have "stage_ok e templates projectPath [''Build''] (buildStage e projectPath cfg)"
  proof (rule stage_ok_single [where r = ?r])
    fix st :: run_state
    show "rs_steps (snd (buildStage e projectPath cfg st)) = rs_steps st @ [?r st]"
      using True by (simp add: buildStage_def push_def split: prod.splits)
    show "step (?r st) = ''Build''"
      by (rule executeStep_step)
    show "fst (buildStage e projectPath cfg st) =
            (if \<not> step_success (?r st) then blockingMessage ''Build'' else None)"
      using True by (simp add: buildStage_def msg split: prod.splits)
    show "trace (rs_world (snd (buildStage e projectPath cfg st))) =
            trace (rs_world st) @ [Exec ''npm'' (stepArgs ''Build'') projectPath]"
      using True executeStep_trace [of e "''Build''" "''npm''" "[''run'', ''build'']"
          projectPath "rs_world st"]
      by (auto simp add: buildStage_def push_def args split: prod.splits)
    show "step_success (?r st) = scanPassed e projectPath"
      if "''Build'' = ''Security Scan''"
      using that by simp
  next
    fix tid :: string
    show "''Build'' \<noteq> ''Template Injection: '' @ tid" by simp
  qed
  then show ?thesis using True by simp
next
  case False
  then have "buildStage e projectPath cfg = (\<lambda>st. (None, st))"
    by (simp add: fun_eq_iff buildStage_def)
  then show ?thesis using False stage_ok_skip by simp
qed

lemma runSecurityScan_result:
  "step (fst (runSecurityScan e projectPath w)) = ''Security Scan'' \<and>
   step_success (fst (runSecurityScan e projectPath w)) = scanPassed e projectPath \<and>
   trace (snd (runSecurityScan e projectPath w)) = trace w @ [Scan projectPath]"
  by (cases "scanProject e projectPath")
     (simp add: runSecurityScan_def scanPassed_def Let_def split: sum.splits)

lemma securityStage_ok:
  "stage_ok e templates projectPath
     (if security (stepFlags cfg) then [''Security Scan''] else [])
     (securityStage e projectPath cfg)"
proof (cases "security (stepFlags cfg)")
  case True
  let ?r = "\<lambda>st. fst (runSecurityScan e projectPath (rs_world st))"
  have msg: "blockingMessage ''Security Scan'' = None"
    by (simp add: blockingMessage_def)
  have "stage_ok e templates projectPath [''Security Scan''] (securityStage e projectPath cfg)"
  proof (rule stage_ok_single [where r = ?r])
    fix st :: run_state
    show "rs_steps (snd (securityStage e projectPath cfg st)) = rs_steps st @ [?r st]"
      using True by (simp add: securityStage_def push_def split: prod.splits)
    show "step (?r st) = ''Security Scan''"
      by (simp add: runSecurityScan_result)
    show "fst (securityStage e projectPath cfg st) =
            (if \<not> step_success (?r st) then blockingMessage ''Security Scan'' else None)"
      using True by (simp add: securityStage_def msg split: prod.splits)
    show "trace (rs_world (snd (securityStage e projectPath cfg st))) =
            trace (rs_world st) @ [Exec ''npm'' (stepArgs ''Security Scan'') projectPath]"
      if "blockingMessage ''Security Scan'' \<noteq> None"
      using that msg by simp
    show "step_success (?r st) = scanPassed e projectPath"
      by (simp add: runSecurityScan_result)
  next
    fix tid :: string
    show "''Security Scan'' \<noteq> ''Template Injection: '' @ tid" by simp
  qed
  then show ?thesis using True by simp
next
  case False
  then have "securityStage e projectPath cfg = (\<lambda>st. (None, st))"
    by (simp add: fun_eq_iff securityStage_def)
  then show ?thesis using False stage_ok_skip by simp
qed

lemma required_fails_empty_record:
  assumes "v \<in> set (variables t)" and "required v"
  shows "\<not> fst (validateVariables t [])"
proof -
  have "variableErrors [] v \<noteq> []"
    using assms(2) by (simp add: variableErrors_def lookup_def)
  then have "concat (map (variableErrors []) (variables t)) \<noteq> []"
    using assms(1) by auto
  then show ?thesis by (simp add: validateVariables_errors)
qed

lemma injectTemplateStep_step:
  "step (fst (injectTemplateStep e templates projectPath tid w)) = ''Template Injection: '' @ tid"
  by (simp add: injectTemplateStep_def Let_def split: prod.splits)

lemma injectTemplateStep_required:
  assumes "templates tid = Some t" and "v \<in> set (variables t)" and "required v"
  shows "\<not> step_success (fst (injectTemplateStep e templates projectPath tid w)) \<and>
         step_output (fst (injectTemplateStep e templates projectPath tid w)) = ''Injected files: '' \<and>
         step_error (fst (injectTemplateStep e templates projectPath tid w)) =
           join '', '' (snd (validateVariables t []))"
proof -
  have inv: "\<not> fst (validateVariables t [])"
    using assms(2,3) by (rule required_fails_empty_record)
  have "injectTemplate e templates tid projectPath [] w =
          (\<lparr>inj_success = False, injectedFiles = [], installedDependencies = [],
            errors = snd (validateVariables t [])\<rparr>,
           w\<lparr>trace := trace w @ [Inject tid projectPath]\<rparr>)"
    using assms(1) inv by (rule injectTemplate_invalid)
  then show ?thesis by (simp add: injectTemplateStep_def Let_def)
qed

lemma template_name_not_blocking:
  "blockingMessage (''Template Injection: '' @ tid) = None"
  by (simp add: blockingMessage_def)

lemma injectLoop_ok:
  "\<exists>new. rs_steps (injectLoop e templates projectPath ids st) = rs_steps st @ new \<and>
     map step new = map (\<lambda>templateId. ''Template Injection: '' @ templateId) ids \<and>
     (\<forall>x \<in> set new. \<forall>tid t.
        step x = ''Template Injection: '' @ tid \<and> templates tid = Some t \<and>
        (\<exists>v \<in> set (variables t). required v) \<longrightarrow>
        \<not> step_success x \<and> step_output x = ''Injected files: '' \<and>
        step_error x = join '', '' (snd (validateVariables t [])))"
proof (induction ids arbitrary: st)
  case Nil
  then show ?case by simp
next
  case (Cons templateId rest)
  let ?r = "fst (injectTemplateStep e templates projectPath templateId (rs_world st))"
  let ?w = "snd (injectTemplateStep e templates projectPath templateId (rs_world st))"
  have unfold: "injectLoop e templates projectPath (templateId # rest) st =
                  injectLoop e templates projectPath rest (push ?r ?w st)"
    by (simp split: prod.splits)
  from Cons.IH [of "push ?r ?w st"] obtain new where new:
    "rs_steps (injectLoop e templates projectPath rest (push ?r ?w st)) =
       rs_steps (push ?r ?w st) @ new"
    "map step new = map (\<lambda>templateId. ''Template Injection: '' @ templateId) rest"
    "\<forall>x \<in> set new. \<forall>tid t.
        step x = ''Template Injection: '' @ tid \<and> templates tid = Some t \<and>
        (\<exists>v \<in> set (variables t). required v) \<longrightarrow>
        \<not> step_success x \<and> step_output x = ''Injected files: '' \<and>
        step_error x = join '', '' (snd (validateVariables t []))"
    by blast
  have r_step: "step ?r = ''Template Injection: '' @ templateId"
    by (rule injectTemplateStep_step)
  have r_ok: "\<forall>tid t.
        step ?r = ''Template Injection: '' @ tid \<and> templates tid = Some t \<and>
        (\<exists>v \<in> set (variables t). required v) \<longrightarrow>
        \<not> step_success ?r \<and> step_output ?r = ''Injected files: '' \<and>
        step_error ?r = join '', '' (snd (validateVariables t []))"
  proof (intro allI impI)
    fix tid t
    assume a: "step ?r = ''Template Injection: '' @ tid \<and> templates tid = Some t \<and>
               (\<exists>v \<in> set (variables t). required v)"
    then have "tid = templateId" using r_step by simp
    then show "\<not> step_success ?r \<and> step_output ?r = ''Injected files: '' \<and>
               step_error ?r = join '', '' (snd (validateVariables t []))"
      using a injectTemplateStep_required [of templates templateId t _ e projectPath "rs_world st"]
      by blast
  qed
  have steps: "rs_steps (injectLoop e templates projectPath (templateId # rest) st) =
                 rs_steps st @ (?r # new)"
    using new(1) by (simp only: unfold) (simp add: push_def)
  have names: "map step (?r # new) =
                 map (\<lambda>templateId. ''Template Injection: '' @ templateId) (templateId # rest)"
    using new(2) r_step by simp
  have all: "\<forall>x \<in> set (?r # new). \<forall>tid t.
        step x = ''Template Injection: '' @ tid \<and> templates tid = Some t \<and>
        (\<exists>v \<in> set (variables t). required v) \<longrightarrow>
        \<not> step_success x \<and> step_output x = ''Injected files: '' \<and>
        step_error x = join '', '' (snd (validateVariables t []))"
    using new(3) r_ok by (metis set_ConsD)
  show ?case
    using steps names all by (intro exI [of _ "?r # new"] conjI)
qed

lemma templateStage_ok:
  "stage_ok e templates projectPath
     (map (\<lambda>templateId. ''Template Injection: '' @ templateId) (injectTemplates (features cfg)))
     (templateStage e templates projectPath cfg)"
  unfolding stage_ok_def
proof (intro allI impI)
  fix st :: run_state and thr st'
  let ?ids = "injectTemplates (features cfg)"
  let ?seg = "map (\<lambda>templateId. ''Template Injection: '' @ templateId) ?ids"
  assume run: "templateStage e templates projectPath cfg st = (thr, st')"
  have thr: "thr = None" and st': "st' = injectLoop e templates projectPath ?ids st"
    using run by (cases "?ids"; simp add: templateStage_def)+
  from injectLoop_ok [of e templates projectPath ?ids st] obtain new where new:
    "rs_steps st' = rs_steps st @ new" "map step new = ?seg"
    "\<forall>x \<in> set new. \<forall>tid t.
        step x = ''Template Injection: '' @ tid \<and> templates tid = Some t \<and>
        (\<exists>v \<in> set (variables t). required v) \<longrightarrow>
        \<not> step_success x \<and> step_output x = ''Injected files: '' \<and>
        step_error x = join '', '' (snd (validateVariables t []))"
    unfolding st' by blast
  have len: "length new = length ?seg"
    using new(2) by (metis length_map)
  have name_of: "\<exists>templateId. step x = ''Template Injection: '' @ templateId" if "x \<in> set new" for x
  proof -
    have "step x \<in> set (map step new)" using that by simp
    then show ?thesis unfolding new(2) by auto
  qed
  have c1: "length new \<le> length ?seg" using len by simp
  have c2: "map step new = take (length new) ?seg" using new(2) len by simp
  have c3: "thr = None \<longrightarrow> length new = length ?seg" using len by simp
  have c4: "thr \<noteq> None \<longrightarrow>
              new \<noteq> [] \<and> blockingMessage (step (last new)) = thr \<and> \<not> step_success (last new) \<and>
              trace (rs_world st') \<noteq> [] \<and>
              last (trace (rs_world st')) = Exec ''npm'' (stepArgs (step (last new))) projectPath"
    using thr by simp
  have c5: "\<forall>i < length new.
              blockingMessage (step (new ! i)) \<noteq> None \<and> \<not> step_success (new ! i) \<longrightarrow>
              Suc i = length new \<and> thr \<noteq> None"
  proof (intro allI impI)
    fix i assume "i < length new"
      and b: "blockingMessage (step (new ! i)) \<noteq> None \<and> \<not> step_success (new ! i)"
    then have "new ! i \<in> set new" by simp
    from name_of [OF this] have "blockingMessage (step (new ! i)) = None"
      using template_name_not_blocking by auto
    then show "Suc i = length new \<and> thr \<noteq> None" using b by simp
  qed
  have c6: "\<forall>x \<in> set new. step x = ''Security Scan'' \<longrightarrow> step_success x = scanPassed e projectPath"
  proof (intro ballI impI)
    fix x assume "x \<in> set new" and s: "step x = ''Security Scan''"
    from name_of [OF this(1)] show "step_success x = scanPassed e projectPath"
      using s by auto
  qed
  show "\<exists>new. rs_steps st' = rs_steps st @ new \<and>
           length new \<le> length ?seg \<and>
           map step new = take (length new) ?seg \<and>
           (thr = None \<longrightarrow> length new = length ?seg) \<and>
           (thr \<noteq> None \<longrightarrow>
              new \<noteq> [] \<and> blockingMessage (step (last new)) = thr \<and> \<not> step_success (last new) \<and>
              trace (rs_world st') \<noteq> [] \<and>
              last (trace (rs_world st')) = Exec ''npm'' (stepArgs (step (last new))) projectPath) \<and>
           (\<forall>i < length new.
              blockingMessage (step (new ! i)) \<noteq> None \<and> \<not> step_success (new ! i) \<longrightarrow>
              Suc i = length new \<and> thr \<noteq> None) \<and>
           (\<forall>x \<in> set new. step x = ''Security Scan'' \<longrightarrow> step_success x = scanPassed e projectPath) \<and>
           (\<forall>x \<in> set new. \<forall>tid t.
              step x = ''Template Injection: '' @ tid \<and> templates tid = Some t \<and>
              (\<exists>v \<in> set (variables t). required v) \<longrightarrow>
              \<not> step_success x \<and> step_output x = ''Injected files: '' \<and>
              step_error x = join '', '' (snd (validateVariables t [])))"
    using new(1) c1 c2 c3 c4 c5 c6 new(3) by (intro exI [of _ new] conjI)
qed

lemma mainStages_ok:
  "stage_ok e templates projectPath (plannedSteps cfg) (mainStages e templates projectPath cfg)"
proof -
  have "stage_ok e templates projectPath
          ((((((if install (stepFlags cfg) then [''Dependency Installation''] else []) @
               map (\<lambda>templateId. ''Template Injection: '' @ templateId)
                   (injectTemplates (features cfg))) @
              (if lint (stepFlags cfg) then [''Linting''] else [])) @
             (if test (stepFlags cfg) then [''Testing''] else [])) @
            (if security (stepFlags cfg) then [''Security Scan''] else [])) @
           (if build (stepFlags cfg) then [''Build''] else []))
          (\<lambda>st. and_then (and_then (and_then (and_then (and_then
             (installStage e projectPath cfg st)
             (templateStage e templates projectPath cfg))
             (lintStage e projectPath cfg))
             (testStage e projectPath cfg))
             (securityStage e projectPath cfg))
             (buildStage e projectPath cfg))"
    by (intro stage_ok_seq installStage_ok templateStage_ok lintStage_ok testStage_ok
        securityStage_ok buildStage_ok)
  moreover have "mainStages e templates projectPath cfg =
          (\<lambda>st. and_then (and_then (and_then (and_then (and_then
             (installStage e projectPath cfg st)
             (templateStage e templates projectPath cfg))
             (lintStage e projectPath cfg))
             (testStage e projectPath cfg))
             (securityStage e projectPath cfg))
             (buildStage e projectPath cfg))"
    by (simp add: fun_eq_iff mainStages_def)
  ultimately show ?thesis
    by (simp add: plannedSteps_def)
qed

lemma checkPrerequisites_world:
  "snd (checkPrerequisites e w) =
     w\<lparr>trace := trace w @ probes e,
       now := now (snd (checkPrerequisites e w))\<rparr>"
  by (simp add: checkPrerequisites_def executeCommand_def probes_def Let_def split: prod.splits)

lemma prerequisiteStage_result:
  "prerequisiteStage e st =
     (if prerequisitesMet e (rs_world st) then None else Some ''Node.js and npm are required'',
      st\<lparr>rs_world := snd (checkPrerequisites e (rs_world st))\<rparr>)"
  by (auto simp add: prerequisiteStage_def prerequisitesMet_def split: prod.splits)

lemma deployStage_steps: "rs_steps (snd (deployStage e projectPath cfg st)) = rs_steps st"
  by (simp add: deployStage_def split: prod.splits sum.splits)

lemma run_prereq_missing:
  assumes "\<not> prerequisitesMet e w"
  shows "runCompleteWorkflow e templates projectPath cfg w =
           (\<lparr>wf_success = False,
             steps = [syntheticStep ''Node.js and npm are required''
                        (now (snd (checkPrerequisites e w)) - now w)],
             deployment = None,
             wf_duration = now (snd (checkPrerequisites e w)) - now w,
             timestamp = now w\<rparr>,
            snd (checkPrerequisites e w))"
  using assms
  by (simp add: runCompleteWorkflow_def workflowBody_split prerequisiteStage_result
      and_then_Some syntheticStep_def Let_def)


lemma run_main_completes:
  assumes "prerequisitesMet e w"
    and "mainStages e templates projectPath cfg
           \<lparr>rs_steps = [], rs_deployment = None, rs_world = snd (checkPrerequisites e w)\<rparr> =
         (None, st2)"
    and "deployStage e projectPath cfg st2 = (d, st3)"
  shows "runCompleteWorkflow e templates projectPath cfg w =
           (case d of
              None \<Rightarrow>
                (\<lparr>wf_success = True, steps = rs_steps st2, deployment = rs_deployment st3,
                  wf_duration = now (rs_world st3) - now w, timestamp = now w\<rparr>, rs_world st3)
            | Some msg \<Rightarrow>
                (\<lparr>wf_success = False,
                  steps = rs_steps st2 @ [syntheticStep msg (now (rs_world st3) - now w)],
                  deployment = rs_deployment st3,
                  wf_duration = now (rs_world st3) - now w, timestamp = now w\<rparr>, rs_world st3))"
proof -
  have "rs_steps st3 = rs_steps st2"
    using deployStage_steps [of e projectPath cfg st2] assms(3) by simp
  then show ?thesis
    using assms
    by (simp add: runCompleteWorkflow_def workflowBody_split prerequisiteStage_result
        and_then_None syntheticStep_def Let_def split: option.splits)
qed


section \<open>The planned steps\<close>

lemma plannedSteps_length:
  "length (plannedSteps cfg) =
     length (filter (\<lambda>flag. flag (stepFlags cfg)) [install, lint, test, security, build]) +
     length (injectTemplates (features cfg))"
  by (simp add: plannedSteps_def)





section \<open>The configurable workflow: blocking and advisory steps\<close>


lemma shape_names:
  assumes "map step new = take (length new) plan" and "i < length new"
  shows "step (new ! i) = plan ! i"
proof -
  have "step (new ! i) = map step new ! i" using assms(2) by simp
  also have "\<dots> = take (length new) plan ! i" using assms(1) by simp
  also have "\<dots> = plan ! i" using assms(2) by simp
  finally show ?thesis .
qed







section \<open>The configurable workflow: order and number of the results\<close>




section \<open>The configurable workflow: nothing enabled, prerequisites missing\<close>

lemma mainStages_idle:
  assumes "\<not> install (stepFlags cfg)" and "\<not> lint (stepFlags cfg)" and "\<not> test (stepFlags cfg)"
    and "\<not> security (stepFlags cfg)" and "\<not> build (stepFlags cfg)"
    and "injectTemplates (features cfg) = []"
  shows "mainStages e templates projectPath cfg st = (None, st)"
  using assms
  by (simp add: mainStages_def installStage_def templateStage_def lintStage_def testStage_def
      securityStage_def buildStage_def and_then_def)

lemma mainStages_no_blocking:
  assumes "\<not> install (stepFlags cfg)" and "\<not> test (stepFlags cfg)" and "\<not> build (stepFlags cfg)"
  shows "fst (mainStages e templates projectPath cfg st) = None"
proof (rule ccontr)
  assume thrown: "fst (mainStages e templates projectPath cfg st) \<noteq> None"
  obtain thr st' where main: "mainStages e templates projectPath cfg st = (thr, st')"
    by (cases "mainStages e templates projectPath cfg st") auto
  from mainStages_ok [of e templates projectPath cfg, unfolded stage_ok_def, rule_format, OF main]
  obtain new where n0:
    "rs_steps st' = rs_steps st @ new" "length new \<le> length (plannedSteps cfg)"
    "map step new = take (length new) (plannedSteps cfg)"
    "thr = None \<longrightarrow> length new = length (plannedSteps cfg)"
    "thr \<noteq> None \<longrightarrow>
       new \<noteq> [] \<and> blockingMessage (step (last new)) = thr \<and> \<not> step_success (last new) \<and>
       trace (rs_world st') \<noteq> [] \<and>
       last (trace (rs_world st')) = Exec ''npm'' (stepArgs (step (last new))) projectPath"
    by blast
  have n: "length new \<le> length (plannedSteps cfg)"
    "map step new = take (length new) (plannedSteps cfg)"
    "thr \<noteq> None \<longrightarrow> new \<noteq> [] \<and> blockingMessage (step (last new)) = thr"
    using n0 by blast+
  have ne: "new \<noteq> []" and blk: "blockingMessage (step (last new)) \<noteq> None"
    using n(3) thrown main by auto
  have idx: "length new - 1 < length new" using ne by simp
  have "last new = new ! (length new - 1)" using ne by (rule last_conv_nth)
  then have "step (last new) = plannedSteps cfg ! (length new - 1)"
    using shape_names [OF n(2) idx] by simp
  moreover have "length new - 1 < length (plannedSteps cfg)" using idx n(1) by simp
  ultimately have "step (last new) \<in> set (plannedSteps cfg)" by simp
  then have "blockingMessage (step (last new)) = None"
    using assms by (auto simp add: plannedSteps_def blockingMessage_def)
  then show False using blk by simp
qed

lemma deployStage_off:
  "\<not> deploy_flag (stepFlags cfg) \<Longrightarrow> deployStage e projectPath cfg st = (None, st)"
  by (simp add: deployStage_def)

text \<open>
  C7, as the code has it. With every stage flag off, no template requested and both
  mandatory tools present, the run performs the three version probes and nothing else
  and returns an empty list of steps with \<open>success = true\<close>. With every stage flag off,
  \<open>success\<close> is the outcome of the prerequisite check, whatever templates are requested.
  When a mandatory tool is missing, the run fails at once, for every configuration: the
  list is the single synthetic step with the message that both tools are required, and
  the three probes are all that was done.
\<close>

theorem idle_workflow_and_missing_prerequisites:
  "(\<not> install (stepFlags cfg) \<and> \<not> lint (stepFlags cfg) \<and> \<not> test (stepFlags cfg) \<and>
    \<not> security (stepFlags cfg) \<and> \<not> build (stepFlags cfg) \<and> \<not> deploy_flag (stepFlags cfg) \<and>
    injectTemplates (features cfg) = [] \<and> prerequisitesMet e w \<longrightarrow>
      steps (fst (runCompleteWorkflow e templates projectPath cfg w)) = [] \<and>
      wf_success (fst (runCompleteWorkflow e templates projectPath cfg w)) \<and>
      deployment (fst (runCompleteWorkflow e templates projectPath cfg w)) = None \<and>
      snd (runCompleteWorkflow e templates projectPath cfg w) = snd (checkPrerequisites e w) \<and>
      trace (snd (runCompleteWorkflow e templates projectPath cfg w)) = trace w @ probes e \<and>
      disk (snd (runCompleteWorkflow e templates projectPath cfg w)) = disk w \<and>
      folders (snd (runCompleteWorkflow e templates projectPath cfg w)) = folders w) \<and>
   (\<not> install (stepFlags cfg) \<and> \<not> lint (stepFlags cfg) \<and> \<not> test (stepFlags cfg) \<and>
    \<not> security (stepFlags cfg) \<and> \<not> build (stepFlags cfg) \<and> \<not> deploy_flag (stepFlags cfg) \<longrightarrow>
      wf_success (fst (runCompleteWorkflow e templates projectPath cfg w)) = prerequisitesMet e w) \<and>
   (\<not> prerequisitesMet e w \<longrightarrow>
      steps (fst (runCompleteWorkflow e templates projectPath cfg w)) =
        [\<lparr>step = ''Workflow Execution'', step_success = False, step_output = [],
          step_error = ''Node.js and npm are required'',
          duration = now (snd (runCompleteWorkflow e templates projectPath cfg w)) - now w\<rparr>] \<and>
      \<not> wf_success (fst (runCompleteWorkflow e templates projectPath cfg w)) \<and>
      deployment (fst (runCompleteWorkflow e templates projectPath cfg w)) = None \<and>
      snd (runCompleteWorkflow e templates projectPath cfg w) = snd (checkPrerequisites e w) \<and>
      trace (snd (runCompleteWorkflow e templates projectPath cfg w)) = trace w @ probes e \<and>
      disk (snd (runCompleteWorkflow e templates projectPath cfg w)) = disk w \<and>
      folders (snd (runCompleteWorkflow e templates projectPath cfg w)) = folders w)"
proof (intro conjI impI)
  let ?R = "runCompleteWorkflow e templates projectPath cfg w"
  let ?st1 = "\<lparr>rs_steps = [], rs_deployment = None, rs_world = snd (checkPrerequisites e w)\<rparr>"
  have probe_trace: "trace (snd (checkPrerequisites e w)) = trace w @ probes e"
    and probe_disk: "disk (snd (checkPrerequisites e w)) = disk w"
    and probe_folders: "folders (snd (checkPrerequisites e w)) = folders w"
    by (subst checkPrerequisites_world, simp)+
  {
    assume a: "\<not> install (stepFlags cfg) \<and> \<not> lint (stepFlags cfg) \<and> \<not> test (stepFlags cfg) \<and>
      \<not> security (stepFlags cfg) \<and> \<not> build (stepFlags cfg) \<and> \<not> deploy_flag (stepFlags cfg) \<and>
      injectTemplates (features cfg) = [] \<and> prerequisitesMet e w"
    then have main: "mainStages e templates projectPath cfg ?st1 = (None, ?st1)"
      using mainStages_idle by blast
    have dep: "deployStage e projectPath cfg ?st1 = (None, ?st1)"
      using a deployStage_off by blast
    have R: "?R = (\<lparr>wf_success = True, steps = [], deployment = None,
                    wf_duration = now (snd (checkPrerequisites e w)) - now w, timestamp = now w\<rparr>,
                   snd (checkPrerequisites e w))"
      using run_main_completes [of e w templates projectPath cfg ?st1 None ?st1] a main dep
      by simp
    show "steps (fst ?R) = []" and "wf_success (fst ?R)" and "deployment (fst ?R) = None"
      and "snd ?R = snd (checkPrerequisites e w)"
      and "trace (snd ?R) = trace w @ probes e" and "disk (snd ?R) = disk w"
      and "folders (snd ?R) = folders w"
      by (simp_all add: R probe_trace probe_disk probe_folders)
  }
  {
    assume a: "\<not> install (stepFlags cfg) \<and> \<not> lint (stepFlags cfg) \<and> \<not> test (stepFlags cfg) \<and>
      \<not> security (stepFlags cfg) \<and> \<not> build (stepFlags cfg) \<and> \<not> deploy_flag (stepFlags cfg)"
    show "wf_success (fst ?R) = prerequisitesMet e w"
    proof (cases "prerequisitesMet e w")
      case False
      then show ?thesis by (simp add: run_prereq_missing [OF False])
    next
      case True
      obtain thr st2 where main: "mainStages e templates projectPath cfg ?st1 = (thr, st2)"
        by (cases "mainStages e templates projectPath cfg ?st1") auto
      have "thr = None"
        using mainStages_no_blocking [of cfg e templates projectPath ?st1] a main by simp
      then have main': "mainStages e templates projectPath cfg ?st1 = (None, st2)"
        using main by simp
      have dep: "deployStage e projectPath cfg st2 = (None, st2)"
        using a deployStage_off by blast
      show ?thesis
        using run_main_completes [OF True main' dep] True by simp
    qed
  }
  {
    assume a: "\<not> prerequisitesMet e w"
    show "steps (fst ?R) =
        [\<lparr>step = ''Workflow Execution'', step_success = False, step_output = [],
          step_error = ''Node.js and npm are required'', duration = now (snd ?R) - now w\<rparr>]"
      and "\<not> wf_success (fst ?R)" and "deployment (fst ?R) = None"
      and "snd ?R = snd (checkPrerequisites e w)"
      and "trace (snd ?R) = trace w @ probes e" and "disk (snd ?R) = disk w"
      and "folders (snd ?R) = folders w"
      by (simp_all add: run_prereq_missing [OF a] syntheticStep_def probe_trace probe_disk
          probe_folders)
  }
qed

theorem idle_workflow_and_missing_prerequisites_witness:
  "(steps (fst (runCompleteWorkflow base_env catalog ''/p'' idle_config fresh_world)) = [] \<and>
    wf_success (fst (runCompleteWorkflow base_env catalog ''/p'' idle_config fresh_world)) \<and>
    trace (snd (runCompleteWorkflow base_env catalog ''/p'' idle_config fresh_world)) =
      trace fresh_world @ probes base_env) \<and>
   wf_success (fst (runCompleteWorkflow base_env catalog ''/p'' bundle_only_config fresh_world)) =
     prerequisitesMet base_env fresh_world \<and>
   (length (steps (fst (runCompleteWorkflow (unlaunchable_env ''node'') catalog ''/p'' full_config
                          fresh_world))) = 1 \<and>
    \<not> wf_success (fst (runCompleteWorkflow (unlaunchable_env ''node'') catalog ''/p'' full_config
                          fresh_world)) \<and>
    trace (snd (runCompleteWorkflow (unlaunchable_env ''node'') catalog ''/p'' full_config
                  fresh_world)) = trace fresh_world @ probes (unlaunchable_env ''node''))"
proof -
  have h1: "\<not> install (stepFlags idle_config) \<and> \<not> lint (stepFlags idle_config) \<and>
            \<not> test (stepFlags idle_config) \<and> \<not> security (stepFlags idle_config) \<and>
            \<not> build (stepFlags idle_config) \<and> \<not> deploy_flag (stepFlags idle_config) \<and>
            injectTemplates (features idle_config) = [] \<and> prerequisitesMet base_env fresh_world"
    by code_simp
  have c1: "steps (fst (runCompleteWorkflow base_env catalog ''/p'' idle_config fresh_world)) = [] \<and>
    wf_success (fst (runCompleteWorkflow base_env catalog ''/p'' idle_config fresh_world)) \<and>
    trace (snd (runCompleteWorkflow base_env catalog ''/p'' idle_config fresh_world)) =
      trace fresh_world @ probes base_env"
    using idle_workflow_and_missing_prerequisites
            [of idle_config base_env fresh_world catalog "''/p''"] h1
    by blast
  have h2: "\<not> install (stepFlags bundle_only_config) \<and> \<not> lint (stepFlags bundle_only_config) \<and>
            \<not> test (stepFlags bundle_only_config) \<and> \<not> security (stepFlags bundle_only_config) \<and>
            \<not> build (stepFlags bundle_only_config) \<and> \<not> deploy_flag (stepFlags bundle_only_config)"
    by code_simp
  have c2: "wf_success (fst (runCompleteWorkflow base_env catalog ''/p'' bundle_only_config
                               fresh_world)) = prerequisitesMet base_env fresh_world"
    using idle_workflow_and_missing_prerequisites
            [of bundle_only_config base_env fresh_world catalog "''/p''"] h2
    by blast
  have h3: "\<not> prerequisitesMet (unlaunchable_env ''node'') fresh_world"
    by code_simp
  have c3: "steps (fst (runCompleteWorkflow (unlaunchable_env ''node'') catalog ''/p'' full_config
                          fresh_world)) =
        [\<lparr>step = ''Workflow Execution'', step_success = False, step_output = [],
          step_error = ''Node.js and npm are required'',
          duration = now (snd (runCompleteWorkflow (unlaunchable_env ''node'') catalog ''/p''
                                 full_config fresh_world)) - now fresh_world\<rparr>] \<and>
      \<not> wf_success (fst (runCompleteWorkflow (unlaunchable_env ''node'') catalog ''/p'' full_config
                            fresh_world)) \<and>
      trace (snd (runCompleteWorkflow (unlaunchable_env ''node'') catalog ''/p'' full_config
                    fresh_world)) = trace fresh_world @ probes (unlaunchable_env ''node'')"
    using idle_workflow_and_missing_prerequisites
            [of full_config "unlaunchable_env ''node''" fresh_world catalog "''/p''"] h3
    by blast
  show ?thesis
    using c1 c2 c3 by simp
qed

text \<open>
  C7 as stated fails when templates are requested: with every stage flag off and one
  template requested, the run injects the template after the prerequisite check and
  the list of steps has its result.
\<close>

theorem templates_run_with_all_stage_flags_off:
  "\<not> install (stepFlags bundle_only_config) \<and> \<not> lint (stepFlags bundle_only_config) \<and>
   \<not> test (stepFlags bundle_only_config) \<and> \<not> security (stepFlags bundle_only_config) \<and>
   \<not> build (stepFlags bundle_only_config) \<and> \<not> deploy_flag (stepFlags bundle_only_config) \<and>
   map step (steps (fst (runCompleteWorkflow base_env catalog ''/p'' bundle_only_config fresh_world))) =
     [''Template Injection: bundle''] \<and>
   trace (snd (runCompleteWorkflow base_env catalog ''/p'' bundle_only_config fresh_world)) =
     probes base_env @ [Inject ''bundle'' ''/p'']"
  by code_simp
section \<open>The configurable workflow: templates are injected with an empty record\<close>







end
